(* ===== verification/Prelude.thy ===== *)
theory Prelude
  imports Main "HOL-Library.AList" "HOL-Library.Sublist"
begin

text \<open>
  Shared vocabulary of the development.  The generator of
  \<^verbatim>\<open>src/rust-action/examples/generate.rs\<close> is a straight-line Rust program in
  which every failure is a panic (\<^verbatim>\<open>expect\<close>, \<^verbatim>\<open>unwrap_or_else(|_| panic!(..))\<close>,
  \<^verbatim>\<open>panic!\<close>).  Every fallible step is therefore modelled as a value of a sum
  type \<open>'e + 'a\<close>, \<open>Inl\<close> being the panic, and steps are chained with
  \<open>ebind\<close>, the Rust \<^verbatim>\<open>?\<close>/\<^verbatim>\<open>expect\<close> composition.  Rust iterators that
  the code only asks for their first element (\<^verbatim>\<open>.next()\<close>) are lists and
  \<open>iter_next\<close>; \<^verbatim>\<open>Option::and_then\<close> is \<open>Option.bind\<close>.
\<close>

named_theorems result_simps "rewrite rules for the error-result combinators"
named_theorems wf_intros "rules that establish the well-formedness invariants"

subsection \<open>Results: a panic is an Inl\<close>

definition ebind :: "'e + 'a \<Rightarrow> ('a \<Rightarrow> 'e + 'b) \<Rightarrow> 'e + 'b" where
  "ebind m f = (case m of Inl e \<Rightarrow> Inl e | Inr a \<Rightarrow> f a)"

lemma ebind_Inl [simp, result_simps]: "ebind (Inl e) f = Inl e"
  by (simp add: ebind_def)

lemma ebind_Inr [simp, result_simps]: "ebind (Inr a) f = f a"
  by (simp add: ebind_def)

lemma ebind_eq_Inr_iff [result_simps]:
  "ebind m f = Inr b \<longleftrightarrow> (\<exists>a. m = Inr a \<and> f a = Inr b)"
  by (cases m) simp_all

lemma ebind_eq_Inl_iff [result_simps]:
  "ebind m f = Inl e \<longleftrightarrow> m = Inl e \<or> (\<exists>a. m = Inr a \<and> f a = Inl e)"
  by (cases m) simp_all

lemma ebind_assoc [simp]: "ebind (ebind m f) g = ebind m (\<lambda>a. ebind (f a) g)"
  by (cases m) simp_all

lemma ebind_split:
  "P (ebind m f) \<longleftrightarrow> (\<forall>e. m = Inl e \<longrightarrow> P (Inl e)) \<and> (\<forall>a. m = Inr a \<longrightarrow> P (f a))"
  by (cases m) simp_all

lemma ebind_split_asm:
  "P (ebind m f) \<longleftrightarrow> \<not> ((\<exists>e. m = Inl e \<and> \<not> P (Inl e)) \<or> (\<exists>a. m = Inr a \<and> \<not> P (f a)))"
  by (cases m) simp_all

lemmas ebind_splits = ebind_split ebind_split_asm

subsection \<open>Iterators asked for their first element\<close>

fun iter_next :: "'a list \<Rightarrow> 'a option" where
  "iter_next [] = None"
| "iter_next (x # _) = Some x"

lemma iter_next_Some_iff [simp]: "iter_next xs = Some x \<longleftrightarrow> (\<exists>ys. xs = x # ys)"
  by (cases xs) auto

lemma iter_next_None_iff [simp]: "iter_next xs = None \<longleftrightarrow> xs = []"
  by (cases xs) auto

subsection \<open>Association lists as finite maps\<close>

text \<open>
  Finite maps whose domain a witness must enumerate (the file system) are
  association lists read through \<open>map_of\<close> and written with \<open>AList.update\<close>.
\<close>

lemma map_of_update [simp]: "map_of (AList.update k v al) = (map_of al)(k \<mapsto> v)"
  by (simp add: update_conv')

lemma map_of_update_other [simp]: "k' \<noteq> k \<Longrightarrow> map_of (AList.update k v al) k' = map_of al k'"
  by (simp add: update_conv')

end
