(* ===== verification/RustStr.thy ===== *)
theory RustStr
  imports Prelude
begin

text \<open>
  The Rust \<^verbatim>\<open>str\<close> methods the generator calls, over strings as lists of
  UTF-8 bytes (an Isabelle \<open>char\<close> is a byte): \<^verbatim>\<open>starts_with\<close>,
  \<^verbatim>\<open>ends_with\<close>, \<^verbatim>\<open>strip_suffix\<close>, \<^verbatim>\<open>contains\<close>, \<^verbatim>\<open>split\<close>,
  \<^verbatim>\<open>rsplit\<close> and \<^verbatim>\<open>trim\<close>.  They are models of the standard library, not of
  the repository, and each is related to the reference notion of
  HOL-Library.Sublist (\<open>prefix\<close>, \<open>suffix\<close>, \<open>sublist\<close>) or to a
  reconstruction law.  \<^verbatim>\<open>trim\<close> removes every Unicode White_Space code point
  (\<^verbatim>\<open>char::is_whitespace\<close>), matched on its UTF-8 encoding.
\<close>

subsection \<open>Prefixes and suffixes\<close>

fun starts_with :: "string \<Rightarrow> string \<Rightarrow> bool" where
  "starts_with s [] = True"
| "starts_with [] (c # cs) = False"
| "starts_with (x # xs) (c # cs) = (x = c \<and> starts_with xs cs)"

definition ends_with :: "string \<Rightarrow> string \<Rightarrow> bool" where
  "ends_with s p \<longleftrightarrow> starts_with (rev s) (rev p)"

definition strip_suffix :: "string \<Rightarrow> string \<Rightarrow> string option" where
  "strip_suffix s suf = (if ends_with s suf then Some (take (length s - length suf) s) else None)"

fun str_contains :: "string \<Rightarrow> string \<Rightarrow> bool" where
  "str_contains [] pat = (pat = [])"
| "str_contains (x # xs) pat = (starts_with (x # xs) pat \<or> str_contains xs pat)"

subsection \<open>Splitting at a character\<close>

text \<open>
  \<^verbatim>\<open>s.split(c)\<close> yields the maximal pieces between occurrences of \<open>c\<close>:
  \<open>n\<close> occurrences give \<open>n + 1\<close> pieces, so the iterator is never empty.
  \<^verbatim>\<open>s.rsplit(c)\<close> yields the same pieces from the back.
\<close>

fun str_split :: "char \<Rightarrow> string \<Rightarrow> string list" where
  "str_split c [] = [[]]"
| "str_split c (x # xs) =
     (if x = c then [] # str_split c xs
      else (case str_split c xs of [] \<Rightarrow> [[x]] | w # ws \<Rightarrow> (x # w) # ws))"

definition str_rsplit :: "char \<Rightarrow> string \<Rightarrow> string list" where
  "str_rsplit c s = rev (str_split c s)"

fun join_with :: "char \<Rightarrow> string list \<Rightarrow> string" where
  "join_with c [] = []"
| "join_with c [w] = w"
| "join_with c (w # ws) = w @ c # join_with c ws"

subsection \<open>Unicode whitespace and trim\<close>

text \<open>
  The UTF-8 encodings of the code points with the Unicode White_Space
  property, which is what \<^verbatim>\<open>char::is_whitespace\<close> tests: U+0009 to U+000D,
  U+0020, U+0085, U+00A0, U+1680, U+2000 to U+200A, U+2028, U+2029, U+202F,
  U+205F and U+3000.  On valid UTF-8 (which \<^verbatim>\<open>String::from_utf8_lossy\<close>
  always produces) a lead or ASCII byte starts a code point, so matching
  these byte sequences at either end of the string is matching code points.
\<close>

definition whitespace_seqs :: "string list" where
  "whitespace_seqs =
     [[CHR 0x09], [CHR 0x0A], [CHR 0x0B], [CHR 0x0C], [CHR 0x0D], [CHR 0x20],
      [CHR 0xC2, CHR 0x85], [CHR 0xC2, CHR 0xA0],
      [CHR 0xE1, CHR 0x9A, CHR 0x80],
      [CHR 0xE2, CHR 0x80, CHR 0x80], [CHR 0xE2, CHR 0x80, CHR 0x81],
      [CHR 0xE2, CHR 0x80, CHR 0x82], [CHR 0xE2, CHR 0x80, CHR 0x83],
      [CHR 0xE2, CHR 0x80, CHR 0x84], [CHR 0xE2, CHR 0x80, CHR 0x85],
      [CHR 0xE2, CHR 0x80, CHR 0x86], [CHR 0xE2, CHR 0x80, CHR 0x87],
      [CHR 0xE2, CHR 0x80, CHR 0x88], [CHR 0xE2, CHR 0x80, CHR 0x89],
      [CHR 0xE2, CHR 0x80, CHR 0x8A],
      [CHR 0xE2, CHR 0x80, CHR 0xA8], [CHR 0xE2, CHR 0x80, CHR 0xA9],
      [CHR 0xE2, CHR 0x80, CHR 0xAF], [CHR 0xE2, CHR 0x81, CHR 0x9F],
      [CHR 0xE3, CHR 0x80, CHR 0x80]]"

lemma whitespace_seqs_nonempty: "w \<in> set whitespace_seqs \<Longrightarrow> w \<noteq> []"
  by (auto simp: whitespace_seqs_def)

definition leading_ws :: "string \<Rightarrow> string option" where
  "leading_ws s = find (starts_with s) whitespace_seqs"

definition trailing_ws :: "string \<Rightarrow> string option" where
  "trailing_ws s = find (ends_with s) whitespace_seqs"

lemma starts_with_prefix [simp]: "starts_with s p \<longleftrightarrow> prefix p s"
  by (induction s p rule: starts_with.induct) auto

lemma ends_with_suffix [simp]: "ends_with s p \<longleftrightarrow> suffix p s"
  by (simp add: ends_with_def suffix_to_prefix)

lemma leading_ws_shorter:
  assumes "leading_ws s = Some w"
  shows "length (drop (length w) s) < length s"
proof -
  from assms have "w \<in> set whitespace_seqs" and "prefix w s"
    by (auto simp: leading_ws_def find_Some_iff nth_mem)
  moreover from \<open>w \<in> set whitespace_seqs\<close> have "w \<noteq> []"
    by (rule whitespace_seqs_nonempty)
  ultimately have "0 < length w" and "length w \<le> length s"
    using prefix_length_le [of w s] by auto
  then show ?thesis by (simp del: length_greater_0_conv)
qed

lemma trailing_ws_shorter:
  assumes "trailing_ws s = Some w"
  shows "length (take (length s - length w) s) < length s"
proof -
  from assms have "w \<in> set whitespace_seqs" and "suffix w s"
    by (auto simp: trailing_ws_def find_Some_iff nth_mem)
  moreover from \<open>w \<in> set whitespace_seqs\<close> have "w \<noteq> []"
    by (rule whitespace_seqs_nonempty)
  ultimately have "0 < length w" and "length w \<le> length s"
    using suffix_length_le [of w s] by auto
  then show ?thesis by (simp del: length_greater_0_conv)
qed

function trim_start :: "string \<Rightarrow> string" where
  "trim_start s = (case leading_ws s of None \<Rightarrow> s | Some w \<Rightarrow> trim_start (drop (length w) s))"
  by pat_completeness auto
termination
  by (relation "measure length") (auto dest: leading_ws_shorter)

function trim_end :: "string \<Rightarrow> string" where
  "trim_end s = (case trailing_ws s of None \<Rightarrow> s | Some w \<Rightarrow> trim_end (take (length s - length w) s))"
  by pat_completeness auto
termination
  by (relation "measure length") (auto dest: trailing_ws_shorter)

definition trim :: "string \<Rightarrow> string" where
  "trim s = trim_end (trim_start s)"

declare trim_start.simps [simp del] trim_end.simps [simp del]

lemma trim_start_None [simp]: "leading_ws s = None \<Longrightarrow> trim_start s = s"
  by (simp add: trim_start.simps)

lemma trim_start_Some [simp]:
  "leading_ws s = Some w \<Longrightarrow> trim_start s = trim_start (drop (length w) s)"
  by (simp add: trim_start.simps)

lemma trim_end_None [simp]: "trailing_ws s = None \<Longrightarrow> trim_end s = s"
  by (simp add: trim_end.simps)

lemma trim_end_Some [simp]:
  "trailing_ws s = Some w \<Longrightarrow> trim_end s = trim_end (take (length s - length w) s)"
  by (simp add: trim_end.simps)

subsection \<open>The string operations against their reference notions\<close>

lemma str_contains_sublist: "str_contains s p \<longleftrightarrow> sublist p s"
  by (induction s p rule: str_contains.induct) (auto simp: sublist_Cons_right)

lemma strip_suffix_Some_iff: "strip_suffix s suf = Some r \<longleftrightarrow> s = r @ suf"
  by (auto simp: strip_suffix_def suffix_def)

lemma strip_suffix_None_iff: "strip_suffix s suf = None \<longleftrightarrow> \<not> suffix suf s"
  by (simp add: strip_suffix_def)

lemma strip_suffix_append [simp]: "strip_suffix (r @ suf) suf = Some r"
  by (simp add: strip_suffix_Some_iff)

lemma str_split_nonempty [simp]: "str_split c s \<noteq> []"
  by (induction s) (auto split: list.split)

lemma str_split_no_sep: "c \<notin> set s \<Longrightarrow> str_split c s = [s]"
  by (induction s) auto

lemma str_split_Cons_sep: "c \<notin> set xs \<Longrightarrow> str_split c (xs @ c # ys) = xs # str_split c ys"
  by (induction xs) auto

lemma str_split_snoc_sep: "c \<notin> set ys \<Longrightarrow> str_split c (xs @ c # ys) = str_split c xs @ [ys]"
proof (induction xs)
  case Nil
  then show ?case by (simp add: str_split_no_sep)
next
  case (Cons x xs)
  then show ?case by (cases "str_split c xs") (auto split: list.split)
qed

lemma str_split_pieces: "w \<in> set (str_split c s) \<Longrightarrow> c \<notin> set w"
proof (induction s arbitrary: w)
  case Nil
  then show ?case by simp
next
  case (Cons x xs)
  then show ?case by (cases "str_split c xs") (auto split: if_splits)
qed

lemma join_with_Cons: "ws \<noteq> [] \<Longrightarrow> join_with c (w # ws) = w @ c # join_with c ws"
  by (cases ws) simp_all

lemma join_with_str_split: "join_with c (str_split c s) = s"
proof (induction s)
  case Nil
  then show ?case by simp
next
  case (Cons x xs)
  show ?case
  proof (cases "x = c")
    case True
    with Cons show ?thesis by (simp add: join_with_Cons)
  next
    case False
    then obtain w ws where sp: "str_split c xs = w # ws"
      by (cases "str_split c xs") auto
    with Cons.IH have "join_with c (w # ws) = xs" by simp
    with False sp show ?thesis by (cases ws) simp_all
  qed
qed

lemma str_split_first:
  "iter_next (str_split c s) = Some (takeWhile (\<lambda>x. x \<noteq> c) s)"
  by (induction s) (auto split: list.split)

lemma str_rsplit_first:
  "iter_next (str_rsplit c s) = Some (rev (takeWhile (\<lambda>x. x \<noteq> c) (rev s)))"
proof (cases "c \<in> set s")
  case True
  then obtain xs ys where s: "s = xs @ c # ys" and "c \<notin> set ys"
    using split_list_last by metis
  then have "takeWhile (\<lambda>x. x \<noteq> c) (rev ys @ c # rev xs) = rev ys"
    by (subst takeWhile_append2) auto
  with s have "takeWhile (\<lambda>x. x \<noteq> c) (rev s) = rev ys"
    by simp
  with s \<open>c \<notin> set ys\<close> show ?thesis
    by (simp add: str_rsplit_def str_split_snoc_sep)
next
  case False
  then have "takeWhile (\<lambda>x. x \<noteq> c) (rev s) = rev s"
    by (subst takeWhile_eq_all_conv) auto
  with False show ?thesis
    by (simp add: str_rsplit_def str_split_no_sep del: takeWhile_eq_all_conv)
qed


lemma takeWhile_upto_sep: "c \<notin> set xs \<Longrightarrow> takeWhile (\<lambda>x. x \<noteq> c) (xs @ c # ys) = xs"
  by (induction xs) auto

lemma takeWhile_rev_after_sep:
  "c \<notin> set ys \<Longrightarrow> rev (takeWhile (\<lambda>x. x \<noteq> c) (rev ys @ c # zs)) = ys"
  by (subst takeWhile_append2) auto

lemma takeWhile_rev_no_sep: "c \<notin> set ys \<Longrightarrow> rev (takeWhile (\<lambda>x. x \<noteq> c) (rev ys)) = ys"
proof -
  assume "c \<notin> set ys"
  then have "takeWhile (\<lambda>x. x \<noteq> c) (rev ys) = rev ys"
    by (subst takeWhile_eq_all_conv) auto
  then show ?thesis by (metis rev_rev_ident)
qed


lemma str_split_append_sep: "str_split c (xs @ c # ys) = str_split c xs @ str_split c ys"
proof (induction xs)
  case Nil
  then show ?case by simp
next
  case (Cons x xs)
  then show ?case by (cases "str_split c xs") (auto split: list.split)
qed

end
