(* ===== verification/Paths.thy ===== *)
theory Paths
  imports RustStr
begin

text \<open>
  The parts of \<^verbatim>\<open>std::path\<close> (Unix flavour) the generator uses:
  \<^verbatim>\<open>Path::components\<close> (the normalised view on which \<^verbatim>\<open>Path\<close> equality,
  \<^verbatim>\<open>parent\<close> and every file-system call work), \<^verbatim>\<open>Path::parent\<close> and
  \<^verbatim>\<open>Path::join\<close>, i.e. \<^verbatim>\<open>PathBuf::push\<close>.  Components are parsed as the
  standard library does: a leading \<^verbatim>\<open>/\<close> is the root, empty pieces
  (repeated or trailing separators) vanish, a \<^verbatim>\<open>.\<close> is kept only as the first
  component of a relative path, \<^verbatim>\<open>..\<close> is a parent component.
\<close>

datatype component = RootDir | CurDir | ParentDir | Normal string

definition comp_of :: "string \<Rightarrow> component" where
  "comp_of p = (if p = ''..'' then ParentDir else Normal p)"

definition inner_pieces :: "string list \<Rightarrow> component list" where
  "inner_pieces ps = map comp_of (filter (\<lambda>p. p \<noteq> [] \<and> p \<noteq> ''.'') ps)"

definition components :: "string \<Rightarrow> component list" where
  "components s =
     (case str_split CHR ''/'' s of
        [] \<Rightarrow> []
      | p # ps \<Rightarrow>
          if p = [] \<and> s \<noteq> [] then RootDir # inner_pieces ps
          else (if p = ''.'' then [CurDir] else []) @ inner_pieces (p # ps))"

text \<open>
  \<^verbatim>\<open>Path::parent\<close>: the path without its last component, unless that
  component is the root or there is none.
\<close>

definition path_parent :: "component list \<Rightarrow> component list option" where
  "path_parent cs = (case rev cs of [] \<Rightarrow> None | RootDir # _ \<Rightarrow> None | _ # rest \<Rightarrow> Some (rev rest))"

text \<open>
  \<^verbatim>\<open>PathBuf::push\<close> on Unix: an absolute argument replaces the buffer;
  otherwise a separator is inserted when the buffer is non-empty and does not
  already end in one.
\<close>

definition path_join :: "string \<Rightarrow> string \<Rightarrow> string" where
  "path_join base p =
     (if starts_with p ''/'' then p
      else if base \<noteq> [] \<and> last base \<noteq> CHR ''/'' then base @ CHR ''/'' # p
      else base @ p)"

lemma path_parent_shorter: "path_parent cs = Some p \<Longrightarrow> length p < length cs"
  by (auto simp: path_parent_def split: list.splits component.splits
      dest!: arg_cong [where f = length])

lemma path_parent_Some_iff:
  "path_parent cs = Some p \<longleftrightarrow> (\<exists>c. cs = p @ [c] \<and> c \<noteq> RootDir)"
  by (cases "rev cs") (auto simp: path_parent_def split: component.splits)

lemma path_parent_snoc [simp]: "c \<noteq> RootDir \<Longrightarrow> path_parent (cs @ [c]) = Some cs"
  by (simp add: path_parent_Some_iff)

lemma path_parent_Nil [simp]: "path_parent [] = None"
  by (simp add: path_parent_def)


lemma inner_pieces_append [simp]: "inner_pieces (xs @ ys) = inner_pieces xs @ inner_pieces ys"
  by (simp add: inner_pieces_def)

lemma inner_pieces_Nil [simp]: "inner_pieces [] = []"
  by (simp add: inner_pieces_def)

lemma inner_pieces_Nil_piece [simp]: "inner_pieces ([] # ps) = inner_pieces ps"
  by (simp add: inner_pieces_def)

lemma inner_pieces_no_CurDir: "CurDir \<notin> set (inner_pieces ps)"
  by (auto simp: inner_pieces_def comp_of_def)

lemma components_absolute:
  "starts_with s ''/'' \<Longrightarrow> components s = RootDir # inner_pieces (str_split CHR ''/'' s)"
  by (cases s) (auto simp: components_def)

lemma components_relative:
  assumes "\<not> starts_with s ''/''"
  shows "filter (\<lambda>c. c \<noteq> CurDir) (components s) = inner_pieces (str_split CHR ''/'' s)"
proof -
  obtain p ps where sp: "str_split CHR ''/'' s = p # ps"
    by (cases "str_split CHR ''/'' s") auto
  have "\<not> (p = [] \<and> s \<noteq> [])"
  proof
    assume "p = [] \<and> s \<noteq> []"
    then obtain x xs where "s = x # xs" and "p = []" by (cases s) auto
    with sp assms show False by (auto split: if_splits list.splits)
  qed
  with sp show ?thesis
    using inner_pieces_no_CurDir [of "p # ps"]
    by (auto simp: components_def filter_id_conv)
qed

text \<open>
  Joining a relative path onto an absolute one appends its components (a
  leading \<^verbatim>\<open>.\<close> of the relative part disappears, as in the standard library).
\<close>

lemma components_path_join:
  assumes abs: "starts_with base ''/''" and rel: "\<not> starts_with p ''/''"
  shows "components (path_join base p) = components base @ filter (\<lambda>c. c \<noteq> CurDir) (components p)"
proof (cases "last base = CHR ''/''")
  case True
  from abs obtain b0 where b0: "base = b0 @ [CHR ''/'']"
    using True by (cases base rule: rev_cases) auto
  have j: "path_join base p = b0 @ CHR ''/'' # p"
    using rel True b0 by (simp add: path_join_def)
  have "starts_with (b0 @ CHR ''/'' # p) ''/''"
    using abs b0 by (cases b0) auto
  then show ?thesis
    using abs rel b0 j
    by (simp add: components_absolute components_relative str_split_append_sep)
next
  case False
  with abs have j: "path_join base p = base @ CHR ''/'' # p"
    using rel by (cases base) (auto simp: path_join_def)
  have "starts_with (base @ CHR ''/'' # p) ''/''"
    using abs by (cases base) auto
  then show ?thesis
    using abs rel j
    by (simp add: components_absolute components_relative str_split_append_sep)
qed

end
