(* ===== verification/Fs.thy ===== *)
theory Fs
  imports Paths
begin

text \<open>
  A model of the file-system calls of \<^verbatim>\<open>std::fs\<close> the generator makes
  (\<^verbatim>\<open>read_to_string\<close>, \<^verbatim>\<open>create_dir_all\<close>, \<^verbatim>\<open>write\<close>), after the Unix file
  system of HOL/Unix/Unix.thy but flat: the tree is a finite map from absolute
  name paths (the root is \<open>[]\<close>) to nodes, a plain file with its contents or a
  directory.  A path given as components is resolved as the kernel walks it
  from the working directory: every intermediate component must be an
  existing directory (\<open>NotFound\<close> when missing, \<open>NotADirectory\<close> when a
  file), \<^verbatim>\<open>..\<close> goes to the parent directory, the root's parent is the root.
  Permissions, symbolic links, mount points and I/O failures of the device are
  not modelled; the text of a file is the byte string the Rust code reads
  (\<^verbatim>\<open>read_to_string\<close>'s UTF-8 validation is not modelled).
  \<^verbatim>\<open>create_dir_all\<close> is the recursion of the standard library
  (\<^verbatim>\<open>DirBuilder::create_dir_all\<close>): try \<^verbatim>\<open>mkdir\<close>; on \<open>NotFound\<close> create
  the parent first and retry; any other error is success exactly when the
  path is already a directory.
\<close>

datatype node = File string | Dir

datatype io_error = NotFound | AlreadyExists | NotADirectory | IsADirectory | Uncategorized

type_synonym fs = "(string list \<times> node) list"

fun walk :: "fs \<Rightarrow> string list \<Rightarrow> component list \<Rightarrow> io_error + string list" where
  "walk fs cur [] = Inr cur"
| "walk fs cur (RootDir # cs) = walk fs [] cs"
| "walk fs cur (CurDir # cs) = walk fs cur cs"
| "walk fs cur (ParentDir # cs) = walk fs (butlast cur) cs"
| "walk fs cur (Normal n # cs) =
     (case map_of fs (cur @ [n]) of
        None \<Rightarrow> Inl NotFound
      | Some (File _) \<Rightarrow> Inl NotADirectory
      | Some Dir \<Rightarrow> walk fs (cur @ [n]) cs)"

text \<open>
  The last component names the entry an operation acts on; the others are
  walked.  \<open>last_entry\<close> splits a path accordingly (\<open>None\<close> for the empty path).
\<close>

definition last_entry :: "component list \<Rightarrow> (component list \<times> component) option" where
  "last_entry cs = (case rev cs of [] \<Rightarrow> None | c # rinit \<Rightarrow> Some (rev rinit, c))"

definition entry_at :: "fs \<Rightarrow> string list \<Rightarrow> component \<Rightarrow> io_error + (string list \<times> node)" where
  "entry_at fs d c =
     (case c of
        Normal n \<Rightarrow> (case map_of fs (d @ [n]) of None \<Rightarrow> Inl NotFound | Some nd \<Rightarrow> Inr (d @ [n], nd))
      | RootDir \<Rightarrow> Inr ([], Dir)
      | CurDir \<Rightarrow> Inr (d, Dir)
      | ParentDir \<Rightarrow> Inr (butlast d, Dir))"

definition lookup_path :: "fs \<Rightarrow> string list \<Rightarrow> component list \<Rightarrow> io_error + (string list \<times> node)" where
  "lookup_path fs cwd cs =
     (case last_entry cs of
        None \<Rightarrow> Inl NotFound
      | Some (init, c) \<Rightarrow> ebind (walk fs cwd init) (\<lambda>d. entry_at fs d c))"

definition is_dir :: "fs \<Rightarrow> string list \<Rightarrow> component list \<Rightarrow> bool" where
  "is_dir fs cwd cs = (case lookup_path fs cwd cs of Inr (_, Dir) \<Rightarrow> True | _ \<Rightarrow> False)"

definition mkdir :: "fs \<Rightarrow> string list \<Rightarrow> component list \<Rightarrow> io_error + fs" where
  "mkdir fs cwd cs =
     (case last_entry cs of
        None \<Rightarrow> Inl NotFound
      | Some (init, c) \<Rightarrow> ebind (walk fs cwd init) (\<lambda>d.
          case c of
            Normal n \<Rightarrow> (case map_of fs (d @ [n]) of
                           None \<Rightarrow> Inr (AList.update (d @ [n]) Dir fs)
                         | Some _ \<Rightarrow> Inl AlreadyExists)
          | _ \<Rightarrow> Inl AlreadyExists))"

definition write_file :: "fs \<Rightarrow> string list \<Rightarrow> component list \<Rightarrow> string \<Rightarrow> io_error + fs" where
  "write_file fs cwd cs text =
     (case last_entry cs of
        None \<Rightarrow> Inl NotFound
      | Some (init, c) \<Rightarrow> ebind (walk fs cwd init) (\<lambda>d.
          case c of
            Normal n \<Rightarrow> (case map_of fs (d @ [n]) of
                           Some Dir \<Rightarrow> Inl IsADirectory
                         | _ \<Rightarrow> Inr (AList.update (d @ [n]) (File text) fs))
          | _ \<Rightarrow> Inl IsADirectory))"

definition read_file :: "fs \<Rightarrow> string list \<Rightarrow> component list \<Rightarrow> io_error + string" where
  "read_file fs cwd cs =
     ebind (lookup_path fs cwd cs) (\<lambda>(p, nd). case nd of File s \<Rightarrow> Inr s | Dir \<Rightarrow> Inl IsADirectory)"

function create_dir_all :: "fs \<Rightarrow> string list \<Rightarrow> component list \<Rightarrow> io_error + fs" where
  "create_dir_all fs cwd cs =
     (if cs = [] then Inr fs
      else case mkdir fs cwd cs of
        Inr fs' \<Rightarrow> Inr fs'
      | Inl NotFound \<Rightarrow>
          (case path_parent cs of
             None \<Rightarrow> Inl Uncategorized
           | Some p \<Rightarrow>
               (case create_dir_all fs cwd p of
                  Inl e \<Rightarrow> Inl e
                | Inr fs1 \<Rightarrow>
                    (case mkdir fs1 cwd cs of
                       Inr fs2 \<Rightarrow> Inr fs2
                     | Inl e \<Rightarrow> if is_dir fs1 cwd cs then Inr fs1 else Inl e)))
      | Inl e \<Rightarrow> if is_dir fs cwd cs then Inr fs else Inl e)"
  by pat_completeness auto
termination
  by (relation "measure (\<lambda>(fs, cwd, cs). length cs)") (auto dest: path_parent_shorter)

declare create_dir_all.simps [simp del]

text \<open>
  Well-formedness: the root is a directory and every entry hangs below a
  directory.  Together with a working directory that is a directory, this is
  the state every run starts from and every operation keeps.
\<close>

definition fs_wf :: "fs \<Rightarrow> bool" where
  "fs_wf fs \<longleftrightarrow> map_of fs [] = Some Dir \<and> (\<forall>(p, _) \<in> set fs. p \<noteq> [] \<longrightarrow> map_of fs (butlast p) = Some Dir)"

definition cwd_ok :: "fs \<Rightarrow> string list \<Rightarrow> bool" where
  "cwd_ok fs cwd \<longleftrightarrow> map_of fs cwd = Some Dir"


subsection \<open>Directories are never removed\<close>

definition dirs_kept :: "fs \<Rightarrow> fs \<Rightarrow> bool" where
  "dirs_kept fs fs' \<longleftrightarrow> (\<forall>p. map_of fs p = Some Dir \<longrightarrow> map_of fs' p = Some Dir)"

lemma dirs_kept_refl [simp]: "dirs_kept fs fs"
  by (simp add: dirs_kept_def)

lemma dirs_kept_trans: "dirs_kept a b \<Longrightarrow> dirs_kept b c \<Longrightarrow> dirs_kept a c"
  by (simp add: dirs_kept_def)

lemma dirs_kept_update: "map_of fs p \<noteq> Some Dir \<Longrightarrow> dirs_kept fs (AList.update p nd fs)"
  by (auto simp: dirs_kept_def)

lemma dirs_kept_update_Dir: "dirs_kept fs (AList.update p Dir fs)"
  by (auto simp: dirs_kept_def)

lemma walk_kept: "walk fs cur cs = Inr d \<Longrightarrow> dirs_kept fs fs' \<Longrightarrow> walk fs' cur cs = Inr d"
proof (induction fs cur cs rule: walk.induct)
  case (5 fs cur n cs)
  then show ?case by (auto simp: dirs_kept_def split: option.splits node.splits)
qed simp_all

lemma walk_Dir:
  "walk fs cur cs = Inr d \<Longrightarrow> fs_wf fs \<Longrightarrow> map_of fs cur = Some Dir \<Longrightarrow> map_of fs d = Some Dir"
proof (induction fs cur cs rule: walk.induct)
  case (2 fs cur cs)
  then show ?case by (simp add: fs_wf_def)
next
  case (4 fs cur cs)
  have "map_of fs (butlast cur) = Some Dir"
  proof (cases "cur = []")
    case False
    with "4.prems"(3) have "(cur, Dir) \<in> set fs" by (simp add: map_of_SomeD)
    with False "4.prems"(2) show ?thesis by (auto simp: fs_wf_def)
  qed (use "4.prems" in simp)
  with 4 show ?case by simp
next
  case (5 fs cur n cs)
  then show ?case by (auto split: option.splits node.splits)
qed simp_all

lemma last_entry_Some_iff: "last_entry cs = Some (init, c) \<longleftrightarrow> cs = init @ [c]"
  by (cases "rev cs") (auto simp: last_entry_def)

lemma last_entry_snoc [simp]: "last_entry (init @ [c]) = Some (init, c)"
  by (simp add: last_entry_def)

lemma last_entry_None_iff [simp]: "last_entry cs = None \<longleftrightarrow> cs = []"
  by (cases "rev cs") (auto simp: last_entry_def)

lemma entry_at_kept:
  "entry_at fs d c = Inr (p, Dir) \<Longrightarrow> dirs_kept fs fs' \<Longrightarrow> entry_at fs' d c = Inr (p, Dir)"
  by (cases c) (auto simp: entry_at_def dirs_kept_def split: option.splits)

lemma lookup_path_kept:
  assumes "lookup_path fs cwd cs = Inr (p, Dir)" and "dirs_kept fs fs'"
  shows "lookup_path fs' cwd cs = Inr (p, Dir)"
proof -
  from assms(1) obtain init c d where le: "last_entry cs = Some (init, c)"
    and wk: "walk fs cwd init = Inr d" and en: "entry_at fs d c = Inr (p, Dir)"
    by (auto simp: lookup_path_def ebind_eq_Inr_iff split: option.splits)
  with walk_kept [OF wk assms(2)] entry_at_kept [OF en assms(2)] show ?thesis
    by (simp add: lookup_path_def)
qed

lemma is_dir_kept: "is_dir fs cwd cs \<Longrightarrow> dirs_kept fs fs' \<Longrightarrow> is_dir fs' cwd cs"
  by (auto simp: is_dir_def dest: lookup_path_kept split: sum.splits prod.splits node.splits)


definition extends :: "fs \<Rightarrow> fs \<Rightarrow> bool" where
  "extends fs fs' \<longleftrightarrow> (\<forall>p x. map_of fs p = Some x \<longrightarrow> map_of fs' p = Some x)"

lemma extends_refl [simp]: "extends fs fs"
  by (simp add: extends_def)

lemma extends_trans: "extends a b \<Longrightarrow> extends b c \<Longrightarrow> extends a c"
  by (simp add: extends_def)

lemma extends_dirs_kept: "extends fs fs' \<Longrightarrow> dirs_kept fs fs'"
  by (simp add: extends_def dirs_kept_def)

subsection \<open>mkdir and create_dir_all\<close>

lemma mkdir_Inr:
  assumes "mkdir fs cwd cs = Inr fs'"
  obtains init n d where "cs = init @ [Normal n]" and "walk fs cwd init = Inr d"
    and "map_of fs (d @ [n]) = None" and "fs' = AList.update (d @ [n]) Dir fs"
proof -
  from assms obtain init c d where le: "last_entry cs = Some (init, c)"
    and wk: "walk fs cwd init = Inr d"
    and r: "(case c of Normal n \<Rightarrow> (case map_of fs (d @ [n]) of
                None \<Rightarrow> Inr (AList.update (d @ [n]) Dir fs) | Some _ \<Rightarrow> Inl AlreadyExists)
            | _ \<Rightarrow> Inl AlreadyExists) = Inr fs'"
    by (auto simp: mkdir_def ebind_eq_Inr_iff split: option.splits)
  from r obtain n where "c = Normal n" and "map_of fs (d @ [n]) = None"
    and "fs' = AList.update (d @ [n]) Dir fs"
    by (cases c) (auto split: option.splits)
  with le wk that show ?thesis by (simp add: last_entry_Some_iff)
qed

lemma mkdir_extends: "mkdir fs cwd cs = Inr fs' \<Longrightarrow> extends fs fs'"
  by (erule mkdir_Inr) (auto simp: extends_def)

lemma mkdir_is_dir: "mkdir fs cwd cs = Inr fs' \<Longrightarrow> is_dir fs' cwd cs"
proof (erule mkdir_Inr)
  fix init n d
  assume cs: "cs = init @ [Normal n]" and wk: "walk fs cwd init = Inr d"
    and fs': "fs' = AList.update (d @ [n]) Dir fs"
  have "walk fs' cwd init = Inr d"
    using walk_kept [OF wk] fs' dirs_kept_update_Dir by blast
  with cs fs' show "is_dir fs' cwd cs"
    by (simp add: is_dir_def lookup_path_def last_entry_Some_iff entry_at_def)
qed

lemma is_dir_mkdir_fails:
  assumes "is_dir fs cwd cs"
  shows "\<exists>e. mkdir fs cwd cs = Inl e \<and> e \<noteq> NotFound"
proof -
  from assms obtain init c d p where le: "last_entry cs = Some (init, c)"
    and wk: "walk fs cwd init = Inr d" and en: "entry_at fs d c = Inr (p, Dir)"
    by (auto simp: is_dir_def lookup_path_def ebind_eq_Inr_iff
        split: option.splits sum.splits prod.splits node.splits)
  then show ?thesis
    by (cases c) (auto simp: mkdir_def entry_at_def split: option.splits)
qed

lemma create_dir_all_is_dir_noop: "is_dir fs cwd cs \<Longrightarrow> create_dir_all fs cwd cs = Inr fs"
  using is_dir_mkdir_fails [of fs cwd cs]
  by (auto simp: create_dir_all.simps [of fs cwd cs] split: io_error.split)

lemma create_dir_all_is_dir:
  "create_dir_all fs cwd cs = Inr fs' \<Longrightarrow> cs \<noteq> [] \<Longrightarrow> is_dir fs' cwd cs"
  by (auto simp: create_dir_all.simps [of fs cwd cs] mkdir_is_dir
      split: sum.splits io_error.splits option.splits if_splits)

lemma create_dir_all_cases:
  assumes "create_dir_all fs cwd cs = Inr fs'"
  obtains (same) "fs' = fs"
  | (made) "mkdir fs cwd cs = Inr fs'"
  | (parent) p fs1 where "cs \<noteq> []" and "mkdir fs cwd cs = Inl NotFound" and "path_parent cs = Some p"
      and "create_dir_all fs cwd p = Inr fs1" and "mkdir fs1 cwd cs = Inr fs' \<or> fs' = fs1"
  using assms
  by (auto simp: create_dir_all.simps [of fs cwd cs]
      split: sum.splits io_error.splits option.splits if_splits)

lemma create_dir_all_extends: "create_dir_all fs cwd cs = Inr fs' \<Longrightarrow> extends fs fs'"
proof (induction fs cwd cs arbitrary: fs' rule: create_dir_all.induct)
  case (1 fs cwd cs)
  from "1.prems" show ?case
  proof (cases rule: create_dir_all_cases)
    case (parent p fs1)
    have "extends fs fs1"
      using parent by (intro "1.IH") auto
    with parent show ?thesis by (auto intro: extends_trans dest: mkdir_extends)
  qed (auto dest: mkdir_extends)
qed

subsection \<open>write and read\<close>

lemma write_file_Inr:
  assumes "write_file fs cwd cs text = Inr fs'"
  obtains init n d where "cs = init @ [Normal n]" and "walk fs cwd init = Inr d"
    and "map_of fs (d @ [n]) \<noteq> Some Dir" and "fs' = AList.update (d @ [n]) (File text) fs"
proof -
  from assms obtain init c d where le: "last_entry cs = Some (init, c)"
    and wk: "walk fs cwd init = Inr d"
    and r: "(case c of Normal n \<Rightarrow> (case map_of fs (d @ [n]) of
                Some Dir \<Rightarrow> Inl IsADirectory | _ \<Rightarrow> Inr (AList.update (d @ [n]) (File text) fs))
            | _ \<Rightarrow> Inl IsADirectory) = Inr fs'"
    by (auto simp: write_file_def ebind_eq_Inr_iff split: option.splits)
  from r obtain n where "c = Normal n" and "map_of fs (d @ [n]) \<noteq> Some Dir"
    and "fs' = AList.update (d @ [n]) (File text) fs"
    by (cases c) (auto split: option.splits node.splits)
  with le wk that show ?thesis by (simp add: last_entry_Some_iff)
qed

lemma write_file_dirs_kept: "write_file fs cwd cs text = Inr fs' \<Longrightarrow> dirs_kept fs fs'"
  by (erule write_file_Inr) (simp add: dirs_kept_update)

lemma write_file_read: "write_file fs cwd cs text = Inr fs' \<Longrightarrow> read_file fs' cwd cs = Inr text"
proof (erule write_file_Inr)
  fix init n d
  assume cs: "cs = init @ [Normal n]" and wk: "walk fs cwd init = Inr d"
    and nd: "map_of fs (d @ [n]) \<noteq> Some Dir" and fs': "fs' = AList.update (d @ [n]) (File text) fs"
  have "walk fs' cwd init = Inr d"
    using walk_kept [OF wk] fs' dirs_kept_update [OF nd] by blast
  with cs fs' show "read_file fs' cwd cs = Inr text"
    by (simp add: read_file_def lookup_path_def last_entry_Some_iff entry_at_def)
qed

lemma write_file_idem: "write_file fs cwd cs text = Inr fs' \<Longrightarrow> write_file fs' cwd cs text = Inr fs'"
proof (erule write_file_Inr)
  fix init n d
  assume cs: "cs = init @ [Normal n]" and wk: "walk fs cwd init = Inr d"
    and nd: "map_of fs (d @ [n]) \<noteq> Some Dir" and fs': "fs' = AList.update (d @ [n]) (File text) fs"
  have "walk fs' cwd init = Inr d"
    using walk_kept [OF wk] fs' dirs_kept_update [OF nd] by blast
  moreover have "AList.update (d @ [n]) (File text) fs' = fs'"
    using fs' by (simp add: update_triv)
  ultimately show "write_file fs' cwd cs text = Inr fs'"
    using cs fs' by (simp add: write_file_def last_entry_Some_iff)
qed


subsection \<open>create_dir_all creates every missing directory\<close>

definition files_kept :: "fs \<Rightarrow> fs \<Rightarrow> bool" where
  "files_kept fs fs' \<longleftrightarrow> (\<forall>p s. map_of fs' p = Some (File s) \<longrightarrow> map_of fs p = Some (File s))"

lemma files_kept_trans: "files_kept a b \<Longrightarrow> files_kept b c \<Longrightarrow> files_kept a c"
  by (simp add: files_kept_def)

lemma mkdir_files_kept: "mkdir fs cwd cs = Inr fs' \<Longrightarrow> files_kept fs fs'"
  by (erule mkdir_Inr) (auto simp: files_kept_def)

lemma create_dir_all_files_kept: "create_dir_all fs cwd cs = Inr fs' \<Longrightarrow> files_kept fs fs'"
proof (induction fs cwd cs arbitrary: fs' rule: create_dir_all.induct)
  case (1 fs cwd cs)
  from "1.prems" show ?case
  proof (cases rule: create_dir_all_cases)
    case (parent p fs1)
    have "files_kept fs fs1"
      using parent by (intro "1.IH") auto
    with parent show ?thesis by (auto intro: files_kept_trans dest: mkdir_files_kept)
  qed (auto simp: files_kept_def dest: mkdir_files_kept)
qed

lemma walk_append: "walk fs cur (xs @ ys) = ebind (walk fs cur xs) (\<lambda>d. walk fs d ys)"
  by (induction fs cur xs rule: walk.induct) (auto split: option.splits node.splits)

text \<open>No plain file on the way from directory \<open>d\<close> down the names \<open>ns\<close>.\<close>

definition no_file_on :: "fs \<Rightarrow> string list \<Rightarrow> string list \<Rightarrow> bool" where
  "no_file_on fs d ns \<longleftrightarrow>
     list_all (\<lambda>i. case map_of fs (d @ take i ns) of Some (File _) \<Rightarrow> False | _ \<Rightarrow> True)
       [0..<Suc (length ns)]"

lemma no_file_on_iff:
  "no_file_on fs d ns \<longleftrightarrow> (\<forall>i \<le> length ns. \<forall>s. map_of fs (d @ take i ns) \<noteq> Some (File s))"
  by (auto simp: no_file_on_def list_all_iff less_Suc_eq_le split: option.splits node.splits)

lemma no_file_on_snoc:
  assumes "no_file_on fs d (ns @ [n])"
  shows "no_file_on fs d ns"
  unfolding no_file_on_iff
proof (intro allI impI)
  fix i s assume i: "i \<le> length ns"
  then have "i \<le> length (ns @ [n])" by simp
  with assms have "map_of fs (d @ take i (ns @ [n])) \<noteq> Some (File s)"
    unfolding no_file_on_iff by blast
  with i show "map_of fs (d @ take i ns) \<noteq> Some (File s)" by simp
qed

lemma no_file_on_last: "no_file_on fs d (ns @ [n]) \<Longrightarrow> map_of fs (d @ ns @ [n]) \<noteq> Some (File s)"
  unfolding no_file_on_iff by (metis le_refl length_append_singleton take_all)

lemma no_file_on_Cons:
  assumes "no_file_on fs d (n # ns)"
  shows "no_file_on fs (d @ [n]) ns" and "map_of fs (d @ [n]) \<noteq> Some (File s)"
proof -
  show "no_file_on fs (d @ [n]) ns"
    unfolding no_file_on_iff
  proof (intro allI impI)
    fix i s assume "i \<le> length ns"
    with assms have "map_of fs (d @ take (Suc i) (n # ns)) \<noteq> Some (File s)"
      unfolding no_file_on_iff by (metis Suc_le_mono length_Cons)
    then show "map_of fs ((d @ [n]) @ take i ns) \<noteq> Some (File s)" by simp
  qed
  from assms show "map_of fs (d @ [n]) \<noteq> Some (File s)"
    unfolding no_file_on_iff by (metis One_nat_def le_add1 length_Cons plus_1_eq_Suc take_0 take_Suc_Cons)
qed

lemma no_file_on_kept: "no_file_on fs d ns \<Longrightarrow> files_kept fs fs' \<Longrightarrow> no_file_on fs' d ns"
  by (auto simp: no_file_on_iff files_kept_def)

lemma walk_Normals:
  "walk fs d (map Normal ns) = Inr d' \<Longrightarrow> d' = d @ ns"
proof (induction ns arbitrary: d)
  case (Cons n ns)
  then have "walk fs (d @ [n]) (map Normal ns) = Inr d'"
    by (auto split: option.splits node.splits)
  with Cons.IH show ?case by fastforce
qed simp

lemma walk_Normals_fail:
  "walk fs d (map Normal ns) = Inl e \<Longrightarrow> no_file_on fs d ns \<Longrightarrow> e = NotFound"
proof (induction ns arbitrary: d)
  case (Cons n ns)
  note nf = no_file_on_Cons [OF Cons.prems(2)]
  show ?case
  proof (cases "map_of fs (d @ [n])")
    case (Some nd)
    with nf(2) have "nd = Dir" by (cases nd) auto
    with Some Cons.prems(1) have "walk fs (d @ [n]) (map Normal ns) = Inl e" by simp
    from Cons.IH [OF this nf(1)] show ?thesis .
  qed (use Cons.prems(1) in simp)
qed simp

lemma walk_lookup_path: "walk fs cwd cs = Inr d \<Longrightarrow> cs \<noteq> [] \<Longrightarrow> lookup_path fs cwd cs = Inr (d, Dir)"
proof -
  assume wk: "walk fs cwd cs = Inr d" and ne: "cs \<noteq> []"
  then obtain init c where cs: "cs = init @ [c]" by (cases cs rule: rev_cases) auto
  from wk cs obtain d0 where w0: "walk fs cwd init = Inr d0" and w1: "walk fs d0 [c] = Inr d"
    by (auto simp: walk_append ebind_eq_Inr_iff)
  from w1 have "entry_at fs d0 c = Inr (d, Dir)"
    by (cases c) (auto simp: entry_at_def split: option.splits node.splits)
  with w0 cs show ?thesis by (simp add: lookup_path_def)
qed


lemma mkdir_after_walk:
  assumes "walk fs cwd init = Inr e" and "\<And>s. map_of fs (e @ [n]) \<noteq> Some (File s)"
  shows "(map_of fs (e @ [n]) = None \<and> mkdir fs cwd (init @ [Normal n]) = Inr (AList.update (e @ [n]) Dir fs))
       \<or> (map_of fs (e @ [n]) = Some Dir \<and> mkdir fs cwd (init @ [Normal n]) = Inl AlreadyExists)"
proof (cases "map_of fs (e @ [n])")
  case (Some x)
  with assms(2) have "x = Dir" by (cases x) auto
  with Some assms(1) show ?thesis by (simp add: mkdir_def)
qed (use assms in \<open>simp add: mkdir_def\<close>)

lemma walk_snoc_Dir:
  "walk fs cwd init = Inr e \<Longrightarrow> map_of fs (e @ [n]) = Some Dir \<Longrightarrow> walk fs cwd (init @ [Normal n]) = Inr (e @ [n])"
  by (simp add: walk_append)

text \<open>Entries deeper than a bound are left as they were.\<close>

definition unchanged_below :: "nat \<Rightarrow> fs \<Rightarrow> fs \<Rightarrow> bool" where
  "unchanged_below k fs fs' \<longleftrightarrow> (\<forall>q. k < length q \<longrightarrow> map_of fs' q = map_of fs q)"

lemma create_dir_all_step:
  assumes wk: "walk fs cwd init = Inr e" and nf: "\<And>s. map_of fs (e @ [n]) \<noteq> Some (File s)"
  shows "\<exists>fs'. (mkdir fs cwd (init @ [Normal n]) = Inr fs'
              \<or> (mkdir fs cwd (init @ [Normal n]) = Inl AlreadyExists \<and> fs' = fs
                 \<and> is_dir fs cwd (init @ [Normal n])))
          \<and> extends fs fs' \<and> files_kept fs fs' \<and> walk fs' cwd (init @ [Normal n]) = Inr (e @ [n])
          \<and> unchanged_below (length (e @ [n])) fs fs'"
proof -
  from mkdir_after_walk [OF wk nf] show ?thesis
  proof
    assume a: "map_of fs (e @ [n]) = None \<and> mkdir fs cwd (init @ [Normal n]) = Inr (AList.update (e @ [n]) Dir fs)"
    have "walk (AList.update (e @ [n]) Dir fs) cwd init = Inr e"
      using walk_kept [OF wk dirs_kept_update_Dir] .
    with a show ?thesis
      by (intro exI [of _ "AList.update (e @ [n]) Dir fs"])
        (auto simp: extends_def files_kept_def walk_snoc_Dir unchanged_below_def map_of_update_other)
  next
    assume a: "map_of fs (e @ [n]) = Some Dir \<and> mkdir fs cwd (init @ [Normal n]) = Inl AlreadyExists"
    then have w: "walk fs cwd (init @ [Normal n]) = Inr (e @ [n])"
      using walk_snoc_Dir [OF wk] by blast
    then have "is_dir fs cwd (init @ [Normal n])"
      by (simp add: is_dir_def walk_lookup_path)
    with a w show ?thesis by (auto simp: files_kept_def unchanged_below_def)
  qed
qed

lemma create_dir_all_NotFound:
  assumes "mkdir fs cwd (cs @ [c]) = Inl NotFound" and "c \<noteq> RootDir"
  shows "create_dir_all fs cwd (cs @ [c]) =
           (case create_dir_all fs cwd cs of
              Inl e \<Rightarrow> Inl e
            | Inr fs1 \<Rightarrow> (case mkdir fs1 cwd (cs @ [c]) of
                 Inr fs2 \<Rightarrow> Inr fs2
               | Inl e \<Rightarrow> if is_dir fs1 cwd (cs @ [c]) then Inr fs1 else Inl e))"
  using assms by (subst create_dir_all.simps) simp

theorem create_dir_all_creates:
  assumes "walk fs cwd pre = Inr d" and "no_file_on fs d ns" and "pre @ map Normal ns \<noteq> []"
  shows "\<exists>fs'. create_dir_all fs cwd (pre @ map Normal ns) = Inr fs' \<and> extends fs fs'
           \<and> files_kept fs fs' \<and> walk fs' cwd (pre @ map Normal ns) = Inr (d @ ns)
           \<and> unchanged_below (length (d @ ns)) fs fs'"
  using assms
proof (induction ns arbitrary: fs rule: rev_induct)
  case Nil
  then have "is_dir fs cwd pre"
    by (simp add: is_dir_def walk_lookup_path)
  with Nil show ?case
    by (auto simp: create_dir_all_is_dir_noop files_kept_def unchanged_below_def)
next
  case (snoc n ns)
  let ?init = "pre @ map Normal ns"
  have cs: "pre @ map Normal (ns @ [n]) = ?init @ [Normal n]" by simp
  have nf: "no_file_on fs d ns" using snoc.prems(2) by (rule no_file_on_snoc)
  have last: "\<And>s. map_of fs (d @ ns @ [n]) \<noteq> Some (File s)"
    using no_file_on_last [OF snoc.prems(2)] .
  show ?case
  proof (cases "walk fs cwd ?init")
    case (Inr e)
    then have "e = d @ ns"
      using snoc.prems(1) by (auto simp: walk_append ebind_eq_Inr_iff dest: walk_Normals)
    with Inr last obtain fs' where st:
      "(mkdir fs cwd (?init @ [Normal n]) = Inr fs'
        \<or> (mkdir fs cwd (?init @ [Normal n]) = Inl AlreadyExists \<and> fs' = fs \<and> is_dir fs cwd (?init @ [Normal n])))
       \<and> extends fs fs' \<and> files_kept fs fs' \<and> walk fs' cwd (?init @ [Normal n]) = Inr (d @ ns @ [n])
       \<and> unchanged_below (length (d @ ns @ [n])) fs fs'"
      using create_dir_all_step [of fs cwd ?init e n] by auto
    then have "create_dir_all fs cwd (?init @ [Normal n]) = Inr fs'"
      by (subst create_dir_all.simps) auto
    with st cs show ?thesis by auto
  next
    case (Inl e)
    then have "?init \<noteq> []" by auto
    from Inl snoc.prems(1) have "walk fs d (map Normal ns) = Inl e"
      by (simp add: walk_append)
    then have "e = NotFound" using nf by (rule walk_Normals_fail)
    with Inl have mk: "mkdir fs cwd (?init @ [Normal n]) = Inl NotFound"
      unfolding mkdir_def last_entry_snoc by simp
    from snoc.IH [OF snoc.prems(1) nf \<open>?init \<noteq> []\<close>] obtain fs1 where
      c1: "create_dir_all fs cwd ?init = Inr fs1" and e1: "extends fs fs1"
      and k1: "files_kept fs fs1" and w1: "walk fs1 cwd ?init = Inr (d @ ns)"
      and u1: "unchanged_below (length (d @ ns)) fs fs1"
      by blast
    have last1: "\<And>s. map_of fs1 (d @ ns @ [n]) \<noteq> Some (File s)"
      using last k1 by (auto simp: files_kept_def)
    with w1 obtain fs2 where st:
      "(mkdir fs1 cwd (?init @ [Normal n]) = Inr fs2
        \<or> (mkdir fs1 cwd (?init @ [Normal n]) = Inl AlreadyExists \<and> fs2 = fs1 \<and> is_dir fs1 cwd (?init @ [Normal n])))
       \<and> extends fs1 fs2 \<and> files_kept fs1 fs2 \<and> walk fs2 cwd (?init @ [Normal n]) = Inr (d @ ns @ [n])
       \<and> unchanged_below (length (d @ ns @ [n])) fs1 fs2"
      using create_dir_all_step [of fs1 cwd ?init "d @ ns" n] by auto
    then have "create_dir_all fs cwd (?init @ [Normal n]) = Inr fs2"
      unfolding create_dir_all_NotFound [OF mk component.distinct(6)] using c1 by auto
    moreover have "unchanged_below (length (d @ ns @ [n])) fs fs2"
      using u1 st unfolding unchanged_below_def by auto
    ultimately show ?thesis using st e1 k1 cs
      by (auto intro: extends_trans files_kept_trans)
  qed
qed

subsection \<open>The shape invariant is preserved\<close>

text \<open>
  \<open>fs_wf\<close>: the root is a directory and every entry's parent is a
  directory.  Creating a directory or writing a file keeps it, provided the
  working directory exists; no operation removes a path.
\<close>

lemma set_update_subset: "set (AList.update k v al) \<subseteq> insert (k, v) (set al)"
  by (induction al) auto
lemma fs_wf_parent: "fs_wf fs \<Longrightarrow> (q, y) \<in> set fs \<Longrightarrow> q \<noteq> [] \<Longrightarrow> map_of fs (butlast q) = Some Dir"
  unfolding fs_wf_def by fast

lemma fs_wf_update:
  assumes wf: "fs_wf fs" and p: "p \<noteq> []" and par: "map_of fs (butlast p) = Some Dir"
    and kept: "dirs_kept fs (AList.update p nd fs)"
  shows "fs_wf (AList.update p nd fs)"
proof -
  have root: "map_of (AList.update p nd fs) [] = Some Dir"
    using wf p by (simp add: fs_wf_def map_of_update_other)
  have "map_of (AList.update p nd fs) (butlast q) = Some Dir"
    if q: "(q, y) \<in> set (AList.update p nd fs)" and ne: "q \<noteq> []" for q y
  proof -
    from q set_update_subset have "(q, y) = (p, nd) \<or> (q, y) \<in> set fs" by fast
    then have "map_of fs (butlast q) = Some Dir"
      using par fs_wf_parent [OF wf _ ne] by fast
    with kept show ?thesis by (simp add: dirs_kept_def)
  qed
  with root show ?thesis unfolding fs_wf_def by fast
qed
lemma cwd_ok_kept: "cwd_ok fs cwd \<Longrightarrow> dirs_kept fs fs' \<Longrightarrow> cwd_ok fs' cwd"
  by (simp add: cwd_ok_def dirs_kept_def)

lemma mkdir_wf:
  assumes "mkdir fs cwd cs = Inr fs'" and wf: "fs_wf fs" and ok: "cwd_ok fs cwd"
  shows "fs_wf fs'"
  using assms(1)
proof (rule mkdir_Inr)
  fix init n d
  assume wk: "walk fs cwd init = Inr d" and fs': "fs' = AList.update (d @ [n]) Dir fs"
  have "map_of fs d = Some Dir"
    using walk_Dir [OF wk wf] ok by (simp add: cwd_ok_def)
  then show "fs_wf fs'"
    unfolding fs' by (intro fs_wf_update wf dirs_kept_update_Dir) simp_all
qed

lemma write_file_wf:
  assumes "write_file fs cwd cs text = Inr fs'" and wf: "fs_wf fs" and ok: "cwd_ok fs cwd"
  shows "fs_wf fs'"
  using assms(1)
proof (rule write_file_Inr)
  fix init n d
  assume wk: "walk fs cwd init = Inr d" and nd: "map_of fs (d @ [n]) \<noteq> Some Dir"
    and fs': "fs' = AList.update (d @ [n]) (File text) fs"
  have "map_of fs d = Some Dir"
    using walk_Dir [OF wk wf] ok by (simp add: cwd_ok_def)
  then show "fs_wf fs'"
    unfolding fs' by (intro fs_wf_update wf dirs_kept_update nd) simp_all
qed

lemma create_dir_all_wf:
  "create_dir_all fs cwd cs = Inr fs' \<Longrightarrow> fs_wf fs \<Longrightarrow> cwd_ok fs cwd \<Longrightarrow> fs_wf fs'"
proof (induction fs cwd cs arbitrary: fs' rule: create_dir_all.induct)
  case (1 fs cwd cs)
  from "1.prems"(1) show ?case
  proof (cases rule: create_dir_all_cases)
    case same
    with "1.prems"(2) show ?thesis by simp
  next
    case made
    then show ?thesis using "1.prems"(2,3) by (rule mkdir_wf)
  next
    case (parent p fs1)
    have wf1: "fs_wf fs1"
      using "1.IH" [OF parent(1,2) refl parent(3,4) "1.prems"(2,3)] .
    have ok1: "cwd_ok fs1 cwd"
      using "1.prems"(3) extends_dirs_kept [OF create_dir_all_extends [OF parent(4)]]
      by (rule cwd_ok_kept)
    from parent(5) show ?thesis
    proof
      assume "mkdir fs1 cwd cs = Inr fs'"
      then show ?thesis using wf1 ok1 by (rule mkdir_wf)
    qed (use wf1 in simp)
  qed
qed

lemma write_file_dom: "write_file fs cwd cs text = Inr fs' \<Longrightarrow> dom (map_of fs) \<subseteq> dom (map_of fs')"
  by (erule write_file_Inr) (simp add: dom_map_of_conv_image_fst dom_update subset_insertI)

lemma extends_dom: "extends fs fs' \<Longrightarrow> dom (map_of fs) \<subseteq> dom (map_of fs')"
  unfolding extends_def by blast


lemma create_dir_all_Nil [simp]: "create_dir_all fs cwd [] = Inr fs"
  by (simp add: create_dir_all.simps)

lemma write_file_after_walk:
  "walk fs cwd init = Inr e \<Longrightarrow> map_of fs (e @ [n]) \<noteq> Some Dir \<Longrightarrow>
   write_file fs cwd (init @ [Normal n]) text = Inr (AList.update (e @ [n]) (File text) fs)"
  by (auto simp: write_file_def split: option.splits node.splits)

text \<open>
  The directory part of a path made of existing components followed by
  names that are not files is ready after \<open>create_dir_all\<close> (also when that
  part is empty, where the standard library returns at once).
\<close>

lemma create_dir_all_ready:
  assumes "walk fs cwd pre = Inr d" and "no_file_on fs d ns"
  shows "\<exists>fs'. create_dir_all fs cwd (pre @ map Normal ns) = Inr fs' \<and> extends fs fs'
           \<and> walk fs' cwd (pre @ map Normal ns) = Inr (d @ ns)
           \<and> unchanged_below (length (d @ ns)) fs fs'"
proof (cases "pre @ map Normal ns = []")
  case True
  with assms(1) show ?thesis
    by (auto simp: unchanged_below_def)
next
  case False
  with create_dir_all_creates [OF assms] show ?thesis by blast
qed


text \<open>
  What survives any sequence of the operations: every directory stays a
  directory and every file stays a file (its text may be replaced).
\<close>

definition no_removal :: "fs \<Rightarrow> fs \<Rightarrow> bool" where
  "no_removal fs fs' \<longleftrightarrow> dirs_kept fs fs'
     \<and> (\<forall>p s. map_of fs p = Some (File s) \<longrightarrow> (\<exists>s'. map_of fs' p = Some (File s')))"

lemma no_removal_refl [simp]: "no_removal fs fs"
  by (simp add: no_removal_def)

lemma no_removal_trans: "no_removal a b \<Longrightarrow> no_removal b c \<Longrightarrow> no_removal a c"
  unfolding no_removal_def by (meson dirs_kept_trans)

lemma extends_no_removal: "extends fs fs' \<Longrightarrow> no_removal fs fs'"
  by (simp add: no_removal_def extends_def dirs_kept_def)

lemma write_file_no_removal: "write_file fs cwd cs text = Inr fs' \<Longrightarrow> no_removal fs fs'"
proof (erule write_file_Inr)
  fix init n d
  assume nd: "map_of fs (d @ [n]) \<noteq> Some Dir" and fs': "fs' = AList.update (d @ [n]) (File text) fs"
  show "no_removal fs fs'"
    unfolding no_removal_def fs'
    by (auto simp: dirs_kept_update [OF nd] map_of_update_other)
qed

end
