(* ===== verification/Serde.thy ===== *)
theory Serde
  imports RustStr
begin

text \<open>
  The data model of \<^verbatim>\<open>generate.rs\<close> (lines 27--62): the structs
  \<^verbatim>\<open>Config\<close>, \<^verbatim>\<open>Input\<close>, \<^verbatim>\<open>Output\<close> and \<^verbatim>\<open>Rust\<close> as records, and
  the code that their \<^verbatim>\<open>#[derive(Serialize, Deserialize)]\<close> attributes
  generate.  A self-describing document (what the YAML library hands to the
  visitor, and what \<^verbatim>\<open>Serialize\<close> hands to the template engine) is an
  \<open>sval\<close>; maps keep their entries in document order.
  \<^item> \<open>serialize_config\<close> is the derived \<^verbatim>\<open>Serialize\<close>: fields in declaration
    order, the two \<^verbatim>\<open>repository_*\<close> fields omitted when \<^verbatim>\<open>None\<close>
    (\<^verbatim>\<open>skip_serializing_if = "Option::is_none"\<close>), \<^verbatim>\<open>Input.default\<close>
    written as a null when \<^verbatim>\<open>None\<close> (it has no such attribute).
  \<^item> \<open>deserialize_config\<close> is the derived \<^verbatim>\<open>Deserialize\<close> map visitor: entries
    are visited in order, an unknown key is skipped, a key seen twice is a
    \<open>DuplicateField\<close> error, each known value is decoded when visited;
    afterwards the fields are read in declaration order, a missing
    \<^verbatim>\<open>Option\<close> field is \<^verbatim>\<open>None\<close> and any other missing field is a
    \<open>MissingField\<close> error naming it.
\<close>

subsection \<open>Documents and errors\<close>

datatype sval =
    VNull
  | VBool bool
  | VStr string
  | VSeq "sval list"
  | VMap "(string \<times> sval) list"

datatype serde_error =
    MissingField string
  | DuplicateField string
  | InvalidType string

subsection \<open>The structs\<close>

record input =
  input_name :: string
  input_description :: string
  input_required :: bool
  input_default :: "string option"

record output_rec =
  output_name :: string
  output_description :: string
  output_value :: string

record rust =
  rust_name :: string
  rust_edition :: string
  rust_version :: string

record config =
  action_name :: string
  description :: string
  author :: string
  inputs :: "input list"
  outputs :: "output_rec list"
  rust :: rust
  repository_name :: "string option"
  repository_owner :: "string option"

subsection \<open>Derived Serialize\<close>

definition ser_opt :: "string option \<Rightarrow> sval" where
  "ser_opt x = (case x of None \<Rightarrow> VNull | Some s \<Rightarrow> VStr s)"

definition serialize_input :: "input \<Rightarrow> sval" where
  "serialize_input i = VMap
     [(''name'', VStr (input_name i)), (''description'', VStr (input_description i)),
      (''required'', VBool (input_required i)), (''default'', ser_opt (input_default i))]"

definition serialize_output :: "output_rec \<Rightarrow> sval" where
  "serialize_output o' = VMap
     [(''name'', VStr (output_name o')), (''description'', VStr (output_description o')),
      (''value'', VStr (output_value o'))]"

definition serialize_rust :: "rust \<Rightarrow> sval" where
  "serialize_rust r = VMap
     [(''name'', VStr (rust_name r)), (''edition'', VStr (rust_edition r)),
      (''version'', VStr (rust_version r))]"

definition skip_none :: "string \<Rightarrow> string option \<Rightarrow> (string \<times> sval) list" where
  "skip_none k x = (case x of None \<Rightarrow> [] | Some s \<Rightarrow> [(k, VStr s)])"

definition serialize_config :: "config \<Rightarrow> sval" where
  "serialize_config c = VMap
     ([(''action_name'', VStr (action_name c)), (''description'', VStr (description c)),
       (''author'', VStr (author c)),
       (''inputs'', VSeq (map serialize_input (inputs c))),
       (''outputs'', VSeq (map serialize_output (outputs c))),
       (''rust'', serialize_rust (rust c))]
      @ skip_none ''repository_name'' (repository_name c)
      @ skip_none ''repository_owner'' (repository_owner c))"

subsection \<open>Derived Deserialize\<close>

definition de_string :: "sval \<Rightarrow> serde_error + string" where
  "de_string v = (case v of VStr s \<Rightarrow> Inr s | _ \<Rightarrow> Inl (InvalidType ''a string''))"

definition de_bool :: "sval \<Rightarrow> serde_error + bool" where
  "de_bool v = (case v of VBool b \<Rightarrow> Inr b | _ \<Rightarrow> Inl (InvalidType ''a boolean''))"

definition de_option :: "sval \<Rightarrow> serde_error + string option" where
  "de_option v = (case v of VNull \<Rightarrow> Inr None | _ \<Rightarrow> map_sum id Some (de_string v))"

fun de_list :: "(sval \<Rightarrow> serde_error + 'a) \<Rightarrow> sval list \<Rightarrow> serde_error + 'a list" where
  "de_list f [] = Inr []"
| "de_list f (v # vs) = ebind (f v) (\<lambda>x. ebind (de_list f vs) (\<lambda>xs. Inr (x # xs)))"

definition de_seq :: "(sval \<Rightarrow> serde_error + 'a) \<Rightarrow> sval \<Rightarrow> serde_error + 'a list" where
  "de_seq f v = (case v of VSeq vs \<Rightarrow> de_list f vs | _ \<Rightarrow> Inl (InvalidType ''a sequence''))"

text \<open>
  A field value decoded by the visitor, before the struct is built.
\<close>

datatype fval =
    FStr string
  | FBool bool
  | FOpt "string option"
  | FInputs "input list"
  | FOutputs "output_rec list"
  | FRust rust

type_synonym field_table = "string \<Rightarrow> (sval \<Rightarrow> serde_error + fval) option"

fun visit_map :: "field_table \<Rightarrow> (string \<rightharpoonup> fval) \<Rightarrow> (string \<times> sval) list \<Rightarrow>
    serde_error + (string \<rightharpoonup> fval)" where
  "visit_map fd acc [] = Inr acc"
| "visit_map fd acc ((k, v) # kvs) =
     (case fd k of
        None \<Rightarrow> visit_map fd acc kvs
      | Some dec \<Rightarrow>
          if acc k \<noteq> None then Inl (DuplicateField k)
          else ebind (dec v) (\<lambda>x. visit_map fd (acc(k \<mapsto> x)) kvs))"

definition field_str :: "(string \<rightharpoonup> fval) \<Rightarrow> string \<Rightarrow> serde_error + string" where
  "field_str m k = (case m k of Some (FStr s) \<Rightarrow> Inr s | _ \<Rightarrow> Inl (MissingField k))"

definition field_bool :: "(string \<rightharpoonup> fval) \<Rightarrow> string \<Rightarrow> serde_error + bool" where
  "field_bool m k = (case m k of Some (FBool b) \<Rightarrow> Inr b | _ \<Rightarrow> Inl (MissingField k))"

definition field_opt :: "(string \<rightharpoonup> fval) \<Rightarrow> string \<Rightarrow> serde_error + string option" where
  "field_opt m k = (case m k of Some (FOpt x) \<Rightarrow> Inr x | _ \<Rightarrow> Inr None)"

definition field_inputs :: "(string \<rightharpoonup> fval) \<Rightarrow> string \<Rightarrow> serde_error + input list" where
  "field_inputs m k = (case m k of Some (FInputs xs) \<Rightarrow> Inr xs | _ \<Rightarrow> Inl (MissingField k))"

definition field_outputs :: "(string \<rightharpoonup> fval) \<Rightarrow> string \<Rightarrow> serde_error + output_rec list" where
  "field_outputs m k = (case m k of Some (FOutputs xs) \<Rightarrow> Inr xs | _ \<Rightarrow> Inl (MissingField k))"

definition field_rust :: "(string \<rightharpoonup> fval) \<Rightarrow> string \<Rightarrow> serde_error + rust" where
  "field_rust m k = (case m k of Some (FRust r) \<Rightarrow> Inr r | _ \<Rightarrow> Inl (MissingField k))"

definition fstr :: "sval \<Rightarrow> serde_error + fval" where
  "fstr v = map_sum id FStr (de_string v)"

definition fopt :: "sval \<Rightarrow> serde_error + fval" where
  "fopt v = map_sum id FOpt (de_option v)"

definition input_fields :: field_table where
  "input_fields k =
     (if k = ''name'' \<or> k = ''description'' then Some fstr
      else if k = ''required'' then Some (\<lambda>v. map_sum id FBool (de_bool v))
      else if k = ''default'' then Some fopt
      else None)"

definition deserialize_input :: "sval \<Rightarrow> serde_error + input" where
  "deserialize_input v = (case v of
     VMap kvs \<Rightarrow> ebind (visit_map input_fields Map.empty kvs) (\<lambda>m.
       ebind (field_str m ''name'') (\<lambda>n.
       ebind (field_str m ''description'') (\<lambda>d.
       ebind (field_bool m ''required'') (\<lambda>r.
       ebind (field_opt m ''default'') (\<lambda>df.
         Inr \<lparr>input_name = n, input_description = d, input_required = r, input_default = df\<rparr>)))))
   | _ \<Rightarrow> Inl (InvalidType ''struct Input''))"

definition output_fields :: field_table where
  "output_fields k =
     (if k = ''name'' \<or> k = ''description'' \<or> k = ''value'' then Some fstr else None)"

definition deserialize_output :: "sval \<Rightarrow> serde_error + output_rec" where
  "deserialize_output v = (case v of
     VMap kvs \<Rightarrow> ebind (visit_map output_fields Map.empty kvs) (\<lambda>m.
       ebind (field_str m ''name'') (\<lambda>n.
       ebind (field_str m ''description'') (\<lambda>d.
       ebind (field_str m ''value'') (\<lambda>x.
         Inr \<lparr>output_name = n, output_description = d, output_value = x\<rparr>))))
   | _ \<Rightarrow> Inl (InvalidType ''struct Output''))"

definition rust_fields :: field_table where
  "rust_fields k =
     (if k = ''name'' \<or> k = ''edition'' \<or> k = ''version'' then Some fstr else None)"

definition deserialize_rust :: "sval \<Rightarrow> serde_error + rust" where
  "deserialize_rust v = (case v of
     VMap kvs \<Rightarrow> ebind (visit_map rust_fields Map.empty kvs) (\<lambda>m.
       ebind (field_str m ''name'') (\<lambda>n.
       ebind (field_str m ''edition'') (\<lambda>e.
       ebind (field_str m ''version'') (\<lambda>x.
         Inr \<lparr>rust_name = n, rust_edition = e, rust_version = x\<rparr>))))
   | _ \<Rightarrow> Inl (InvalidType ''struct Rust''))"

definition config_fields :: field_table where
  "config_fields k =
     (if k = ''action_name'' \<or> k = ''description'' \<or> k = ''author'' then Some fstr
      else if k = ''inputs'' then Some (\<lambda>v. map_sum id FInputs (de_seq deserialize_input v))
      else if k = ''outputs'' then Some (\<lambda>v. map_sum id FOutputs (de_seq deserialize_output v))
      else if k = ''rust'' then Some (\<lambda>v. map_sum id FRust (deserialize_rust v))
      else if k = ''repository_name'' \<or> k = ''repository_owner'' then Some fopt
      else None)"

definition deserialize_config :: "sval \<Rightarrow> serde_error + config" where
  "deserialize_config v = (case v of
     VMap kvs \<Rightarrow> ebind (visit_map config_fields Map.empty kvs) (\<lambda>m.
       ebind (field_str m ''action_name'') (\<lambda>an.
       ebind (field_str m ''description'') (\<lambda>d.
       ebind (field_str m ''author'') (\<lambda>au.
       ebind (field_inputs m ''inputs'') (\<lambda>is.
       ebind (field_outputs m ''outputs'') (\<lambda>os.
       ebind (field_rust m ''rust'') (\<lambda>r.
       ebind (field_opt m ''repository_name'') (\<lambda>rn.
       ebind (field_opt m ''repository_owner'') (\<lambda>ro.
         Inr \<lparr>action_name = an, description = d, author = au, inputs = is, outputs = os,
              rust = r, repository_name = rn, repository_owner = ro\<rparr>)))))))))
   | _ \<Rightarrow> Inl (InvalidType ''struct Config''))"

text \<open>The required fields of \<^verbatim>\<open>Config\<close>, in declaration order.\<close>

definition config_required :: "string list" where
  "config_required = [''action_name'', ''description'', ''author'', ''inputs'', ''outputs'', ''rust'']"

lemmas serde_defs = de_string_def de_bool_def de_option_def de_seq_def fstr_def fopt_def
  field_str_def field_bool_def field_opt_def field_inputs_def field_outputs_def field_rust_def

subsection \<open>The map visitor\<close>

lemma visit_map_skip:
  "fd k = None \<Longrightarrow> visit_map fd acc (kvs1 @ (k, v) # kvs2) = visit_map fd acc (kvs1 @ kvs2)"
proof (induction kvs1 arbitrary: acc)
  case Nil
  then show ?case by simp
next
  case (Cons kv kvs1)
  then show ?case
    by (cases kv) (auto split: option.split intro: arg_cong [where f = "ebind _"])
qed

lemma visit_map_Cons_Inr:
  assumes "visit_map fd acc ((k', v) # kvs) = Inr m"
  obtains "fd k' = None" and "visit_map fd acc kvs = Inr m"
  | dec x where "fd k' = Some dec" and "acc k' = None" and "dec v = Inr x"
      and "visit_map fd (acc(k' \<mapsto> x)) kvs = Inr m"
  using assms by (cases "fd k'") (auto simp: ebind_eq_Inr_iff split: if_splits)

lemma visit_map_keep:
  "visit_map fd acc kvs = Inr m \<Longrightarrow> acc k \<noteq> None \<Longrightarrow> m k = acc k"
proof (induction kvs arbitrary: acc)
  case Nil
  then show ?case by simp
next
  case (Cons kv kvs)
  obtain k' v where kv: "kv = (k', v)" by fastforce
  from Cons.prems(1) [unfolded kv] show ?case
  proof (cases rule: visit_map_Cons_Inr)
    case 1
    then show ?thesis using Cons.IH Cons.prems(2) by blast
  next
    case (2 dec x)
    with Cons.prems(2) have "k \<noteq> k'" by auto
    with Cons.IH [OF 2(4)] Cons.prems(2) show ?thesis by simp
  qed
qed

lemma visit_map_absent:
  "visit_map fd acc kvs = Inr m \<Longrightarrow> k \<notin> fst ` set kvs \<Longrightarrow> m k = acc k"
proof (induction kvs arbitrary: acc)
  case Nil
  then show ?case by simp
next
  case (Cons kv kvs)
  obtain k' v where kv: "kv = (k', v)" by fastforce
  with Cons.prems(2) have "k \<noteq> k'" and nk: "k \<notin> fst ` set kvs" by auto
  from Cons.prems(1) [unfolded kv] show ?case
  proof (cases rule: visit_map_Cons_Inr)
    case 1
    then show ?thesis using Cons.IH nk by blast
  next
    case (2 dec x)
    with Cons.IH [OF 2(4) nk] \<open>k \<noteq> k'\<close> show ?thesis by simp
  qed
qed

lemma visit_map_present:
  "visit_map fd acc kvs = Inr m \<Longrightarrow> fd k = Some dec \<Longrightarrow> acc k = None \<Longrightarrow> map_of kvs k = Some v
   \<Longrightarrow> \<exists>x. dec v = Inr x \<and> m k = Some x"
proof (induction kvs arbitrary: acc)
  case Nil
  then show ?case by simp
next
  case (Cons kv kvs)
  obtain k' v' where kv: "kv = (k', v')" by fastforce
  from Cons.prems(1) [unfolded kv] show ?case
  proof (cases rule: visit_map_Cons_Inr)
    case 1
    with Cons.prems kv have "k' \<noteq> k" by auto
    with 1 Cons.prems kv show ?thesis using Cons.IH by auto
  next
    case (2 dec' x)
    show ?thesis
    proof (cases "k' = k")
      case True
      with 2 Cons.prems kv have "dec v = Inr x" by simp
      moreover from 2 True have "m k = Some x"
        using visit_map_keep [of fd "acc(k' \<mapsto> x)" kvs m k] by simp
      ultimately show ?thesis by blast
    next
      case False
      with Cons.prems kv have "(acc(k' \<mapsto> x)) k = None" and "map_of kvs k = Some v" by auto
      with Cons.IH [OF 2(4) Cons.prems(2)] show ?thesis by blast
    qed
  qed
qed


subsection \<open>Round trip: Deserialize inverts Serialize\<close>

lemma de_list_map:
  "(\<And>x. x \<in> set xs \<Longrightarrow> f (g x) = Inr x) \<Longrightarrow> de_list f (map g xs) = Inr xs"
  by (induction xs) auto

lemma deserialize_input_serialize [simp]: "deserialize_input (serialize_input i) = Inr i"
  by (cases "input_default i")
    (simp_all add: deserialize_input_def serialize_input_def input_fields_def ser_opt_def serde_defs)

lemma deserialize_output_serialize [simp]: "deserialize_output (serialize_output o') = Inr o'"
  by (simp add: deserialize_output_def serialize_output_def output_fields_def serde_defs)

lemma deserialize_rust_serialize [simp]: "deserialize_rust (serialize_rust r) = Inr r"
  by (simp add: deserialize_rust_def serialize_rust_def rust_fields_def serde_defs)

lemma de_list_inputs [simp]: "de_list deserialize_input (map serialize_input xs) = Inr xs"
  by (simp add: de_list_map)

lemma de_list_outputs [simp]: "de_list deserialize_output (map serialize_output xs) = Inr xs"
  by (simp add: de_list_map)

lemmas config_decode_defs = deserialize_config_def serialize_config_def config_fields_def
  skip_none_def serde_defs

text \<open>
  C8: the derived \<^verbatim>\<open>Deserialize\<close> of \<^verbatim>\<open>Config\<close> inverts its derived \<^verbatim>\<open>Serialize\<close>: every configuration, with or without the repository fields (which serialization skips when absent), is decoded back from the document it is serialized to.
\<close>

theorem config_roundtrip: "deserialize_config (serialize_config c) = Inr c"
proof (cases "repository_name c")
  case None
  then show ?thesis
    by (cases "repository_owner c") (simp_all add: config_decode_defs)
next
  case (Some n)
  then show ?thesis
    by (cases "repository_owner c") (simp_all add: config_decode_defs)
qed

subsection \<open>Unknown, missing and present fields\<close>

text \<open>
  C10: a field the schema does not know is ignored wherever it appears in the document: removing it does not change the outcome of decoding.
\<close>

theorem config_unknown_field_ignored:
  assumes "config_fields k = None"
  shows "deserialize_config (VMap (kvs1 @ (k, v) # kvs2)) = deserialize_config (VMap (kvs1 @ kvs2))"
  using visit_map_skip [of config_fields k, OF assms] by (simp add: deserialize_config_def)

lemma config_field_missing:
  "visit_map config_fields Map.empty kvs = Inr m \<Longrightarrow> k \<notin> fst ` set kvs \<Longrightarrow> m k = None"
  using visit_map_absent by fastforce

lemma map_sum_id_Inr: "map_sum id C r = Inr x \<Longrightarrow> \<exists>y. x = C y"
  by (cases r) auto

lemma config_field_present:
  assumes "visit_map config_fields Map.empty kvs = Inr m" and "config_fields k = Some dec"
    and "k \<in> fst ` set kvs"
  shows "\<exists>v x. dec v = Inr x \<and> m k = Some x"
proof -
  from assms(3) obtain v where "map_of kvs k = Some v"
    by (metis map_of_eq_None_iff not_None_eq)
  with visit_map_present [OF assms(1,2)] show ?thesis by auto
qed

lemma config_present_getters:
  assumes "visit_map config_fields Map.empty kvs = Inr m"
  shows "''action_name'' \<in> fst ` set kvs \<Longrightarrow> \<exists>s. field_str m ''action_name'' = Inr s"
    and "''description'' \<in> fst ` set kvs \<Longrightarrow> \<exists>s. field_str m ''description'' = Inr s"
    and "''author'' \<in> fst ` set kvs \<Longrightarrow> \<exists>s. field_str m ''author'' = Inr s"
    and "''inputs'' \<in> fst ` set kvs \<Longrightarrow> \<exists>xs. field_inputs m ''inputs'' = Inr xs"
    and "''outputs'' \<in> fst ` set kvs \<Longrightarrow> \<exists>xs. field_outputs m ''outputs'' = Inr xs"
    and "''rust'' \<in> fst ` set kvs \<Longrightarrow> \<exists>r. field_rust m ''rust'' = Inr r"
  using config_field_present [OF assms, of "''action_name''"]
    config_field_present [OF assms, of "''description''"]
    config_field_present [OF assms, of "''author''"]
    config_field_present [OF assms, of "''inputs''"]
    config_field_present [OF assms, of "''outputs''"] config_field_present [OF assms, of "''rust''"]
  by (auto simp: config_fields_def serde_defs dest!: map_sum_id_Inr)

lemma ebind_const: "\<exists>a. m = Inr a \<Longrightarrow> ebind m (\<lambda>_. r) = r"
  by auto

lemma field_getters_None:
  "m k = None \<Longrightarrow> field_str m k = Inl (MissingField k)"
  "m k = None \<Longrightarrow> field_inputs m k = Inl (MissingField k)"
  "m k = None \<Longrightarrow> field_outputs m k = Inl (MissingField k)"
  "m k = None \<Longrightarrow> field_rust m k = Inl (MissingField k)"
  by (simp_all add: serde_defs)

text \<open>
  C9: a document whose map visit succeeds (every known key occurs at most once and every known value present decodes) but that lacks some required field is rejected with \<^verbatim>\<open>MissingField\<close> naming the first of the missing fields in declaration order (\<^verbatim>\<open>action_name\<close>, \<^verbatim>\<open>description\<close>, \<^verbatim>\<open>author\<close>, \<^verbatim>\<open>inputs\<close>, \<^verbatim>\<open>outputs\<close>, \<^verbatim>\<open>rust\<close>).
\<close>

theorem config_missing_required_field:
  assumes visit: "visit_map config_fields Map.empty kvs = Inr m"
    and first: "filter (\<lambda>f. f \<notin> fst ` set kvs) config_required = f # fs"
  shows "deserialize_config (VMap kvs) = Inl (MissingField f)"
proof -
  from filter_eq_ConsD [OF first] obtain us vs where
    split: "config_required = us @ f # vs" and pre: "\<forall>u\<in>set us. u \<in> fst ` set kvs"
    and nf: "f \<notin> fst ` set kvs"
    by auto
  have "m f = None"
    using config_field_missing [OF visit nf] .
  with split pre visit config_present_getters [OF visit] show ?thesis
    unfolding config_required_def deserialize_config_def
    by (auto simp: Cons_eq_append_conv field_getters_None ebind_const)
qed


lemma config_field_value:
  assumes visit: "visit_map config_fields Map.empty kvs = Inr m"
    and dec: "config_fields k = Some dec" and mk: "m k = Some x"
  shows "\<exists>v. map_of kvs k = Some v \<and> dec v = Inr x"
proof -
  have "k \<in> fst ` set kvs"
    using config_field_missing [OF visit] mk by fastforce
  then obtain v where v: "map_of kvs k = Some v"
    by (metis map_of_eq_None_iff not_None_eq)
  with visit_map_present [OF visit dec] mk show ?thesis by auto
qed

lemma field_getters_Inr:
  "field_str m k = Inr s \<Longrightarrow> m k = Some (FStr s)"
  "field_inputs m k = Inr xs \<Longrightarrow> m k = Some (FInputs xs)"
  "field_outputs m k = Inr ys \<Longrightarrow> m k = Some (FOutputs ys)"
  "field_rust m k = Inr r \<Longrightarrow> m k = Some (FRust r)"
  by (auto simp: serde_defs split: option.splits fval.splits)

lemma fstr_Inr_iff: "fstr v = Inr x \<longleftrightarrow> (\<exists>s. v = VStr s \<and> x = FStr s)"
  by (cases v) (auto simp: fstr_def de_string_def)

lemma map_sum_id_Inr_iff: "map_sum id C r = Inr x \<longleftrightarrow> (\<exists>y. r = Inr y \<and> x = C y)"
  by (cases r) auto

lemma config_fields_match_document:
  assumes "deserialize_config (VMap kvs) = Inr c"
  shows "map_of kvs ''action_name'' = Some (VStr (action_name c))"
    and "map_of kvs ''description'' = Some (VStr (description c))"
    and "map_of kvs ''author'' = Some (VStr (author c))"
    and "\<exists>v. map_of kvs ''inputs'' = Some v \<and> de_seq deserialize_input v = Inr (inputs c)"
    and "\<exists>v. map_of kvs ''outputs'' = Some v \<and> de_seq deserialize_output v = Inr (outputs c)"
    and "\<exists>v. map_of kvs ''rust'' = Some v \<and> deserialize_rust v = Inr (rust c)"
proof -
  from assms obtain m where visit: "visit_map config_fields Map.empty kvs = Inr m"
    and an: "m ''action_name'' = Some (FStr (action_name c))"
    and de: "m ''description'' = Some (FStr (description c))"
    and au: "m ''author'' = Some (FStr (author c))"
    and ins: "m ''inputs'' = Some (FInputs (inputs c))"
    and ous: "m ''outputs'' = Some (FOutputs (outputs c))"
    and ru: "m ''rust'' = Some (FRust (rust c))"
    by (auto simp: deserialize_config_def ebind_eq_Inr_iff dest!: field_getters_Inr
        split: sval.splits)
  have str: "map_of kvs k = Some (VStr s)"
    if "k \<in> {''action_name'', ''description'', ''author''}" and "m k = Some (FStr s)" for k s
  proof -
    from that have "config_fields k = Some fstr" by (auto simp: config_fields_def)
    from config_field_value [OF visit this \<open>m k = Some (FStr s)\<close>] show ?thesis
      by (auto simp: fstr_Inr_iff)
  qed
  show "map_of kvs ''action_name'' = Some (VStr (action_name c))" using str an by simp
  show "map_of kvs ''description'' = Some (VStr (description c))" using str de by simp
  show "map_of kvs ''author'' = Some (VStr (author c))" using str au by simp
  show "\<exists>v. map_of kvs ''inputs'' = Some v \<and> de_seq deserialize_input v = Inr (inputs c)"
    using config_field_value [OF visit _ ins] by (auto simp: config_fields_def map_sum_id_Inr_iff)
  show "\<exists>v. map_of kvs ''outputs'' = Some v \<and> de_seq deserialize_output v = Inr (outputs c)"
    using config_field_value [OF visit _ ous] by (auto simp: config_fields_def map_sum_id_Inr_iff)
  show "\<exists>v. map_of kvs ''rust'' = Some v \<and> deserialize_rust v = Inr (rust c)"
    using config_field_value [OF visit _ ru] by (auto simp: config_fields_def map_sum_id_Inr_iff)
qed


text \<open>
  C11: a configuration decoded from a document carries exactly the document's values: the three strings, and the input list, output list and language record each decoded from the value the document has under its key.
\<close>

theorem config_fields_match:
  assumes "deserialize_config (VMap kvs) = Inr c"
  shows "map_of kvs ''action_name'' = Some (VStr (action_name c))
    \<and> map_of kvs ''description'' = Some (VStr (description c))
    \<and> map_of kvs ''author'' = Some (VStr (author c))
    \<and> (\<exists>v. map_of kvs ''inputs'' = Some v \<and> de_seq deserialize_input v = Inr (inputs c))
    \<and> (\<exists>v. map_of kvs ''outputs'' = Some v \<and> de_seq deserialize_output v = Inr (outputs c))
    \<and> (\<exists>v. map_of kvs ''rust'' = Some v \<and> deserialize_rust v = Inr (rust c))"
  using config_fields_match_document [OF assms] by blast

subsection \<open>Witnesses\<close>

definition demo_doc :: "(string \<times> sval) list" where
  "demo_doc = [(''action_name'', VStr ''hello''), (''description'', VStr ''Says hello''),
     (''author'', VStr ''octocat''), (''inputs'', VSeq []), (''outputs'', VSeq []),
     (''rust'', VMap [(''name'', VStr ''hello''), (''edition'', VStr ''2021''), (''version'', VStr ''1.85'')])]"

theorem config_unknown_field_ignored_witness:
  "deserialize_config (VMap ([(''action_name'', VStr ''hello'')] @ (''colour'', VStr ''red'') # tl demo_doc))
   = deserialize_config (VMap ([(''action_name'', VStr ''hello'')] @ tl demo_doc))"
  by (rule config_unknown_field_ignored) (simp add: config_fields_def)

theorem config_missing_required_field_witness:
  "deserialize_config (VMap [(''action_name'', VStr ''hello''), (''author'', VStr ''octocat''), (''colour'', VStr ''red'')])
   = Inl (MissingField ''description'')"
proof -
  obtain m where "visit_map config_fields Map.empty
      [(''action_name'', VStr ''hello''), (''author'', VStr ''octocat''), (''colour'', VStr ''red'')] = Inr m"
    by (simp add: config_fields_def fstr_def de_string_def)
  moreover have "filter (\<lambda>f. f \<notin> fst ` set [(''action_name'', VStr ''hello''), (''author'', VStr ''octocat''),
      (''colour'', VStr ''red'')]) config_required = ''description'' # [''inputs'', ''outputs'', ''rust'']"
    by (simp add: config_required_def)
  ultimately show ?thesis by (rule config_missing_required_field)
qed

theorem config_fields_match_witness:
  "map_of demo_doc ''action_name'' = Some (VStr ''hello'')
   \<and> (\<exists>v. map_of demo_doc ''rust'' = Some v \<and> deserialize_rust v = Inr \<lparr>rust_name = ''hello'', rust_edition = ''2021'', rust_version = ''1.85''\<rparr>)"
proof -
  have d: "deserialize_config (VMap demo_doc) = Inr \<lparr>action_name = ''hello'', description = ''Says hello'', author = ''octocat'',
      inputs = [], outputs = [], rust = \<lparr>rust_name = ''hello'', rust_edition = ''2021'', rust_version = ''1.85''\<rparr>,
      repository_name = None, repository_owner = None\<rparr>"
    by code_simp
  from config_fields_match [OF d] show ?thesis by simp
qed

end
