(* ===== verification/World.thy ===== *)
theory World
  imports Fs Serde
begin

text \<open>
  The state a run of \<^verbatim>\<open>generate.rs\<close> reads and changes, and the monad that
  threads it.  The world holds the file system and the working directory, the
  external \<^verbatim>\<open>git\<close> executable as an oracle from argument lists to an optional
  process output (\<open>None\<close>: the process could not be spawned, so
  \<^verbatim>\<open>Command::output\<close> returned an error), the log of the commands
  spawned and the lines printed on standard output.  A computation is
  \<open>'a io = world \<Rightarrow> (panic + 'a) \<times> world\<close>: a panic ends the run with the
  world as it was at the panic, so files written before it stay written.
  The libraries the program only calls (the YAML parser of
  \<^verbatim>\<open>serde_saphyr\<close> and the minijinja template compiler and renderer) are the
  record \<open>'c libs\<close>, a parameter of every operation that uses them, with
  \<open>'c\<close> the engine's compiled template.
\<close>

subsection \<open>Panics\<close>

datatype tmpl_error =
    SyntaxError string
  | TemplateNotFound string
  | EvalError string

datatype config_error = YamlError string | SchemaError serde_error

text \<open>One constructor per panic site of \<^verbatim>\<open>generate.rs\<close> (line numbers of the panic).\<close>

datatype panic =
    ConfigReadFailed string            \<comment> \<open>74\<close>
  | ConfigParseFailed config_error     \<comment> \<open>75\<close>
  | CommandSpawnFailed string          \<comment> \<open>87, 109, 210: the \<^verbatim>\<open>expect\<close> message\<close>
  | GitStatusFailed int                \<comment> \<open>97 and 215: the same message at both sites\<close>
  | NoOriginRemote                     \<comment> \<open>92\<close>
  | RepoNameNotFound string            \<comment> \<open>116\<close>
  | RepoOwnerNotFound string           \<comment> \<open>121\<close>
  | OriginUrlFailed string int          \<comment> \<open>124\<close>
  | TemplateReadFailed string          \<comment> \<open>143\<close>
  | TemplateAddFailed tmpl_error       \<comment> \<open>156\<close>
  | TemplateGetFailed tmpl_error       \<comment> \<open>164\<close>
  | TemplateRenderFailed tmpl_error    \<comment> \<open>167\<close>
  | CreateDirFailed "component list"   \<comment> \<open>174\<close>
  | WriteFailed string                 \<comment> \<open>179\<close>

subsection \<open>Processes, libraries and the world\<close>

record proc_output =
  exit_code :: "int option"
  stdout :: string

definition status_success :: "proc_output \<Rightarrow> bool" where
  "status_success out \<longleftrightarrow> exit_code out = Some 0"

definition code_or_minus1 :: "proc_output \<Rightarrow> int" where
  "code_or_minus1 out = (case exit_code out of None \<Rightarrow> -1 | Some c \<Rightarrow> c)"

record 'c libs =
  yaml_parse :: "string \<Rightarrow> string + sval"
  compile :: "bool \<Rightarrow> string \<Rightarrow> string \<Rightarrow> tmpl_error + 'c"
  render :: "'c \<Rightarrow> sval \<Rightarrow> tmpl_error + string"

record world =
  fs :: fs
  cwd :: "string list"
  git :: "string list \<Rightarrow> proc_output option"
  spawned :: "string list list"
  console :: "string list"

type_synonym 'a io = "world \<Rightarrow> (panic + 'a) \<times> world"

subsection \<open>The monad\<close>

named_theorems io_simps "evaluation rules of the world-passing monad"

definition io_return :: "'a \<Rightarrow> 'a io" where
  "io_return a w = (Inr a, w)"

definition io_panic :: "panic \<Rightarrow> 'a io" where
  "io_panic e w = (Inl e, w)"

definition io_bind :: "'a io \<Rightarrow> ('a \<Rightarrow> 'b io) \<Rightarrow> 'b io" where
  "io_bind m f w = (case m w of (Inl e, w') \<Rightarrow> (Inl e, w') | (Inr a, w') \<Rightarrow> f a w')"

definition println :: "string \<Rightarrow> unit io" where
  "println s w = (Inr (), w\<lparr>console := console w @ [s]\<rparr>)"

definition run_git :: "string list \<Rightarrow> proc_output option io" where
  "run_git args w = (Inr (git w args), w\<lparr>spawned := spawned w @ [args]\<rparr>)"

definition read_to_string :: "string \<Rightarrow> (io_error + string) io" where
  "read_to_string path w = (Inr (read_file (fs w) (cwd w) (components path)), w)"

definition fs_create_dir_all :: "component list \<Rightarrow> (io_error + unit) io" where
  "fs_create_dir_all p w =
     (case create_dir_all (fs w) (cwd w) p of
        Inl e \<Rightarrow> (Inr (Inl e), w)
      | Inr fs' \<Rightarrow> (Inr (Inr ()), w\<lparr>fs := fs'\<rparr>))"

definition fs_write :: "string \<Rightarrow> string \<Rightarrow> (io_error + unit) io" where
  "fs_write path text w =
     (case write_file (fs w) (cwd w) (components path) text of
        Inl e \<Rightarrow> (Inr (Inl e), w)
      | Inr fs' \<Rightarrow> (Inr (Inr ()), w\<lparr>fs := fs'\<rparr>))"

lemma io_bind_return [simp, io_simps]: "io_bind (io_return a) f = f a"
  by (simp add: io_bind_def io_return_def fun_eq_iff)

lemma io_bind_panic [simp, io_simps]: "io_bind (io_panic e) f = io_panic e"
  by (simp add: io_bind_def io_panic_def fun_eq_iff)

lemma io_bind_return_right [simp]: "io_bind m io_return = m"
  by (simp add: io_bind_def io_return_def fun_eq_iff split: prod.split sum.split)

lemma io_bind_assoc [simp]: "io_bind (io_bind m f) g = io_bind m (\<lambda>a. io_bind (f a) g)"
  by (simp add: io_bind_def fun_eq_iff split: prod.split sum.split)

lemma io_bind_apply [io_simps]:
  "io_bind m f w = (case m w of (Inl e, w') \<Rightarrow> (Inl e, w') | (Inr a, w') \<Rightarrow> f a w')"
  by (simp add: io_bind_def)

lemma io_return_apply [simp, io_simps]: "io_return a w = (Inr a, w)"
  by (simp add: io_return_def)

lemma io_panic_apply [simp, io_simps]: "io_panic e w = (Inl e, w)"
  by (simp add: io_panic_def)

lemma println_apply [simp, io_simps]: "println s w = (Inr (), w\<lparr>console := console w @ [s]\<rparr>)"
  by (simp add: println_def)

lemma run_git_apply [simp, io_simps]:
  "run_git args w = (Inr (git w args), w\<lparr>spawned := spawned w @ [args]\<rparr>)"
  by (simp add: run_git_def)

lemma read_to_string_apply [simp, io_simps]:
  "read_to_string path w = (Inr (read_file (fs w) (cwd w) (components path)), w)"
  by (simp add: read_to_string_def)


subsection \<open>A sample world\<close>

text \<open>
  A concrete starting state used by the witnesses: the generator runs in
  \<^verbatim>\<open>/home/dev/repo/rust-action\<close>, where \<^verbatim>\<open>config.yaml\<close> and the four
  templates are one level up, and \<^verbatim>\<open>git\<close> answers the three commands the
  program issues with the given outputs, exit status 0.
\<close>

definition demo_git :: "string \<Rightarrow> string \<Rightarrow> string \<Rightarrow> string list \<Rightarrow> proc_output option" where
  "demo_git remotes url root args =
     (if args = [''remote''] then Some \<lparr>exit_code = Some 0, stdout = remotes\<rparr>
      else if args = [''remote'', ''get-url'', ''origin''] then Some \<lparr>exit_code = Some 0, stdout = url\<rparr>
      else if args = [''rev-parse'', ''--show-toplevel''] then Some \<lparr>exit_code = Some 0, stdout = root\<rparr>
      else None)"

definition demo_world :: "(string list \<Rightarrow> proc_output option) \<Rightarrow> fs \<Rightarrow> world" where
  "demo_world g files = \<lparr>fs = files, cwd = [''home'', ''dev'', ''repo'', ''rust-action''], git = g,
     spawned = [], console = []\<rparr>"


definition demo_config :: config where
  "demo_config = \<lparr>action_name = ''hello'', description = ''Says hello'', author = ''octocat'',
     inputs = [\<lparr>input_name = ''who'', input_description = ''Whom to greet'', input_required = True,
                input_default = None\<rparr>],
     outputs = [\<lparr>output_name = ''greeting'', output_description = ''The greeting'',
                 output_value = ''${{ steps.run.outputs.greeting }}''\<rparr>],
     rust = \<lparr>rust_name = ''hello'', rust_edition = ''2021'', rust_version = ''1.85''\<rparr>,
     repository_name = None, repository_owner = None\<rparr>"

text \<open>
  Library capabilities for the witnesses: the parser returns the sample
  configuration's document, the compiler keeps the flag and the source (an
  empty source is a syntax error), rendering returns the template source.
  \<open>demo_fs\<close> is the checkout the generator expects: the configuration and
  the four templates one level above the working directory.
\<close>

definition demo_libs :: "(bool \<times> string) libs" where
  "demo_libs = \<lparr>yaml_parse = \<lambda>_. Inr (serialize_config demo_config),
     compile = \<lambda>b n src. if src = [] then Inl (SyntaxError n) else Inr (b, src),
     render = \<lambda>ct v. Inr (snd ct)\<rparr>"

definition demo_fs :: fs where
  "demo_fs = [([], Dir), ([''home''], Dir), ([''home'', ''dev''], Dir), ([''home'', ''dev'', ''repo''], Dir),
     ([''home'', ''dev'', ''repo'', ''rust-action''], Dir),
     ([''home'', ''dev'', ''repo'', ''config.yaml''], File ''action_name: hello''),
     ([''home'', ''dev'', ''repo'', ''templates''], Dir),
     ([''home'', ''dev'', ''repo'', ''templates'', ''action.yml.j2''], File ''name: {{ action_name }}''),
     ([''home'', ''dev'', ''repo'', ''templates'', ''README.md.j2''], File ''# {{ action_name }}''),
     ([''home'', ''dev'', ''repo'', ''templates'', ''cargo.toml.j2''], File ''[package]''),
     ([''home'', ''dev'', ''repo'', ''templates'', ''test-action.yml.j2''], File ''on: push'')]"

end
