(* ===== verification/Repo.thy ===== *)
theory Repo
  imports World
begin

text \<open>
  The repository inspector of \<^verbatim>\<open>generate.rs\<close>:
  \<^verbatim>\<open>Config::extract_repo_name_and_owner\<close> (lines 78--130),
  \<^verbatim>\<open>get_repository_root_path\<close> (201--220) and \<^verbatim>\<open>join_root_path\<close>
  (187--199).  Each runs \<^verbatim>\<open>git\<close> through the world's oracle, panics when the
  process cannot be spawned (\<^verbatim>\<open>expect\<close>) or exits unsuccessfully, and reads
  the trimmed standard output.  The repository name is the last
  \<^verbatim>\<open>/\<close>-piece of the origin URL with its \<^verbatim>\<open>.git\<close> suffix stripped
  (\<^verbatim>\<open>strip_suffix\<close> returns \<^verbatim>\<open>None\<close> without the suffix, and the code then
  panics); the owner is the last \<^verbatim>\<open>:\<close>-piece of the first \<^verbatim>\<open>/\<close>-piece.
\<close>

subsection \<open>Messages\<close>

text \<open>
  The \<^verbatim>\<open>expect\<close> messages, as the Rust string literals denote them: a
  backslash at the end of a line drops the line break and the next line's
  leading blanks.
\<close>

definition remote_err_msg :: string where
  "remote_err_msg = ''Failed to get git remotes or git is not installed,please ensure git is installed and the current directory is agit repository with a remote set up.''"

definition url_err_msg :: string where
  "url_err_msg = ''Failed to get git remote origin URL''"

definition root_err_msg :: string where
  "root_err_msg = ''Failed to get git repository root path,please ensure git is installed and the current directory is agit repository.''"

subsection \<open>Deriving name and owner from the origin URL\<close>

definition repo_name_of_url :: "string \<Rightarrow> string option" where
  "repo_name_of_url url =
     Option.bind (iter_next (str_rsplit CHR ''/'' url)) (\<lambda>s. strip_suffix s ''.git'')"

definition repo_owner_of_url :: "string \<Rightarrow> string option" where
  "repo_owner_of_url url =
     Option.bind (iter_next (str_split CHR ''/'' url)) (\<lambda>s. iter_next (str_rsplit CHR '':'' s))"

subsection \<open>The operations\<close>

definition extract_repo_name_and_owner :: "config \<Rightarrow> config io" where
  "extract_repo_name_and_owner c =
     io_bind (run_git [''remote'']) (\<lambda>r. case r of
       None \<Rightarrow> io_panic (CommandSpawnFailed remote_err_msg)
     | Some out \<Rightarrow>
         if status_success out then
           (if \<not> str_contains (trim (stdout out)) ''origin'' then io_panic NoOriginRemote
            else io_bind (run_git [''remote'', ''get-url'', ''origin'']) (\<lambda>r2. case r2 of
              None \<Rightarrow> io_panic (CommandSpawnFailed url_err_msg)
            | Some out2 \<Rightarrow>
                if status_success out2 then
                  (let url = trim (stdout out2) in
                   case repo_name_of_url url of
                     None \<Rightarrow> io_panic (RepoNameNotFound url)
                   | Some name \<Rightarrow>
                       (let c1 = c\<lparr>repository_name := Some name\<rparr> in
                        case repo_owner_of_url url of
                          None \<Rightarrow> io_panic (RepoOwnerNotFound url)
                        | Some owner \<Rightarrow> io_return (c1\<lparr>repository_owner := Some owner\<rparr>)))
                else io_panic (OriginUrlFailed url_err_msg (code_or_minus1 out2))))
         else io_panic (GitStatusFailed (code_or_minus1 out)))"

definition get_repository_root_path :: "string io" where
  "get_repository_root_path =
     io_bind (run_git [''rev-parse'', ''--show-toplevel'']) (\<lambda>r. case r of
       None \<Rightarrow> io_panic (CommandSpawnFailed root_err_msg)
     | Some out \<Rightarrow>
         if status_success out then io_return (trim (stdout out))
         else io_panic (GitStatusFailed (code_or_minus1 out)))"

text \<open>
  \<^verbatim>\<open>join_root_path\<close>: the error message is formatted eagerly and the
  \<^verbatim>\<open>to_str().expect(..)\<close> cannot fail, the joined path being built from two
  UTF-8 strings, so the operation is the join after the root query.
\<close>

definition join_root_path :: "string \<Rightarrow> string io" where
  "join_root_path rel = io_bind get_repository_root_path (\<lambda>root. io_return (path_join root rel))"


subsection \<open>The URL derivations against their specification\<close>

text \<open>
  What the two derivations compute, stated without iterators: the name
  segment is everything after the last \<^verbatim>\<open>/\<close>, the owner segment is
  everything after the last \<^verbatim>\<open>:\<close> of what precedes the first \<^verbatim>\<open>/\<close>.
\<close>

definition name_segment :: "string \<Rightarrow> string" where
  "name_segment url = rev (takeWhile (\<lambda>x. x \<noteq> CHR ''/'') (rev url))"

definition owner_segment :: "string \<Rightarrow> string" where
  "owner_segment url =
     rev (takeWhile (\<lambda>x. x \<noteq> CHR '':'') (rev (takeWhile (\<lambda>x. x \<noteq> CHR ''/'') url)))"

lemma repo_name_of_url_eq: "repo_name_of_url url = strip_suffix (name_segment url) ''.git''"
  by (simp add: repo_name_of_url_def name_segment_def str_rsplit_first)

lemma repo_owner_of_url_eq: "repo_owner_of_url url = Some (owner_segment url)"
  by (simp add: repo_owner_of_url_def owner_segment_def str_split_first str_rsplit_first)

lemma name_segment_ssh:
  "CHR ''/'' \<notin> set name \<Longrightarrow> name_segment (p @ CHR ''/'' # name @ ''.git'') = name @ ''.git''"
  by (simp add: name_segment_def takeWhile_rev_after_sep)

lemma owner_segment_ssh:
  assumes "CHR ''/'' \<notin> set pre" "CHR ''/'' \<notin> set owner" "CHR '':'' \<notin> set owner"
  shows "owner_segment (pre @ CHR '':'' # owner @ CHR ''/'' # rest) = owner"
proof -
  have "takeWhile (\<lambda>x. x \<noteq> CHR ''/'') ((pre @ CHR '':'' # owner) @ CHR ''/'' # rest) = pre @ CHR '':'' # owner"
    using assms(1,2) by (intro takeWhile_upto_sep) simp
  with assms(3) show ?thesis
    by (simp add: owner_segment_def takeWhile_rev_after_sep)
qed


subsection \<open>Behaviour of extract_repo_name_and_owner\<close>

lemma extract_after_origin:
  assumes "git w [''remote''] = Some out" and "status_success out"
    and "str_contains (trim (stdout out)) ''origin''"
    and "git w [''remote'', ''get-url'', ''origin''] = Some out2" and "status_success out2"
  shows "extract_repo_name_and_owner c w =
     (case repo_name_of_url (trim (stdout out2)) of
        None \<Rightarrow> Inl (RepoNameNotFound (trim (stdout out2)))
      | Some n \<Rightarrow> Inr (c\<lparr>repository_name := Some n,
                          repository_owner := Some (owner_segment (trim (stdout out2)))\<rparr>),
      w\<lparr>spawned := spawned w @ [[''remote''], [''remote'', ''get-url'', ''origin'']]\<rparr>)"
  using assms
  by (simp add: extract_repo_name_and_owner_def io_bind_apply repo_owner_of_url_eq
      split: option.split)

text \<open>C1: for an SSH-style origin URL \<open>pre:owner/name.git\<close> the inspector issues
  \<^verbatim>\<open>git remote\<close> and \<^verbatim>\<open>git remote get-url origin\<close>, in that order, and stores
  \<open>name\<close> as the repository name and \<open>owner\<close> as the repository owner.\<close>

theorem extract_ssh_origin:
  assumes "git w [''remote''] = Some out" and "status_success out"
    and "str_contains (trim (stdout out)) ''origin''"
    and "git w [''remote'', ''get-url'', ''origin''] = Some out2" and "status_success out2"
    and "trim (stdout out2) = pre @ CHR '':'' # owner @ CHR ''/'' # name @ ''.git''"
    and "CHR ''/'' \<notin> set pre" and "CHR ''/'' \<notin> set owner" and "CHR '':'' \<notin> set owner"
    and "CHR ''/'' \<notin> set name"
  shows "extract_repo_name_and_owner c w =
     (Inr (c\<lparr>repository_name := Some name, repository_owner := Some owner\<rparr>),
      w\<lparr>spawned := spawned w @ [[''remote''], [''remote'', ''get-url'', ''origin'']]\<rparr>)"
proof -
  have "name_segment (trim (stdout out2)) = name @ ''.git''"
    using assms(6,10) name_segment_ssh [of name "pre @ CHR '':'' # owner"] by simp
  then have "repo_name_of_url (trim (stdout out2)) = Some name"
    by (simp add: repo_name_of_url_eq)
  moreover have "owner_segment (trim (stdout out2)) = owner"
    using assms(6-9) owner_segment_ssh by simp
  ultimately show ?thesis
    using extract_after_origin [OF assms(1-5)] by simp
qed


theorem extract_ssh_origin_witness:
  "extract_repo_name_and_owner demo_config
     (demo_world (demo_git ''origin\<newline>'' ''git@example.com:octocat/hello-world.git\<newline>'' ''/home/dev/repo\<newline>'') []) =
   (Inr (demo_config\<lparr>repository_name := Some ''hello-world'', repository_owner := Some ''octocat''\<rparr>),
    (demo_world (demo_git ''origin\<newline>'' ''git@example.com:octocat/hello-world.git\<newline>'' ''/home/dev/repo\<newline>'') [])
      \<lparr>spawned := [[''remote''], [''remote'', ''get-url'', ''origin'']]\<rparr>)"
proof -
  let ?w = "demo_world (demo_git ''origin\<newline>'' ''git@example.com:octocat/hello-world.git\<newline>'' ''/home/dev/repo\<newline>'') []"
  have g1: "git ?w [''remote''] = Some \<lparr>exit_code = Some 0, stdout = ''origin\<newline>''\<rparr>"
    by (simp add: demo_world_def demo_git_def)
  have g2: "git ?w [''remote'', ''get-url'', ''origin''] =
      Some \<lparr>exit_code = Some 0, stdout = ''git@example.com:octocat/hello-world.git\<newline>''\<rparr>"
    by (simp add: demo_world_def demo_git_def)
  have ok: "status_success \<lparr>exit_code = Some 0, stdout = s\<rparr>" for s
    by (simp add: status_success_def)
  have o: "str_contains (trim (stdout \<lparr>exit_code = Some (0::int), stdout = ''origin\<newline>''\<rparr>)) ''origin''"
    by code_simp
  have u: "trim (stdout \<lparr>exit_code = Some (0::int), stdout = ''git@example.com:octocat/hello-world.git\<newline>''\<rparr>) =
      ''git@example.com'' @ CHR '':'' # ''octocat'' @ CHR ''/'' # ''hello-world'' @ ''.git''"
    by code_simp
  show ?thesis
    using extract_ssh_origin [OF g1 ok o g2 ok u] by (simp add: demo_world_def)
qed


text \<open>C2: when the trimmed output of \<^verbatim>\<open>git remote\<close> does not contain
  \<^verbatim>\<open>origin\<close>, the inspector panics with the no-origin message and spawns no
  further command.\<close>

theorem extract_no_origin:
  assumes "git w [''remote''] = Some out" and "status_success out"
    and "\<not> str_contains (trim (stdout out)) ''origin''"
  shows "extract_repo_name_and_owner c w = (Inl NoOriginRemote, w\<lparr>spawned := spawned w @ [[''remote'']]\<rparr>)"
  using assms by (simp add: extract_repo_name_and_owner_def io_bind_apply)

theorem extract_no_origin_witness:
  "extract_repo_name_and_owner demo_config
     (demo_world (demo_git ''upstream\<newline>'' '''' '''') []) =
   (Inl NoOriginRemote, (demo_world (demo_git ''upstream\<newline>'' '''' '''') [])\<lparr>spawned := [[''remote'']]\<rparr>)"
proof -
  have g: "git (demo_world (demo_git ''upstream\<newline>'' '''' '''') []) [''remote''] =
      Some \<lparr>exit_code = Some 0, stdout = ''upstream\<newline>''\<rparr>"
    by (simp add: demo_world_def demo_git_def)
  have ok: "status_success \<lparr>exit_code = Some 0, stdout = ''upstream\<newline>''\<rparr>"
    by (simp add: status_success_def)
  have n: "\<not> str_contains (trim (stdout \<lparr>exit_code = Some (0::int), stdout = ''upstream\<newline>''\<rparr>)) ''origin''"
    by code_simp
  show ?thesis
    using extract_no_origin [OF g ok n] by (simp add: demo_world_def)
qed

text \<open>C3: the origin check is a substring test on the whole remote list: a list
  whose only remote is \<^verbatim>\<open>origin2\<close> passes it, the inspector goes on to run
  \<^verbatim>\<open>git remote get-url origin\<close>, and the failure of that command is the
  panic reported.\<close>

theorem extract_origin_substring:
  assumes "git w [''remote''] = Some out" and "status_success out"
    and "sublist ''origin'' (trim (stdout out))"
    and "git w [''remote'', ''get-url'', ''origin''] = Some out2" and "\<not> status_success out2"
  shows "extract_repo_name_and_owner c w =
     (Inl (OriginUrlFailed url_err_msg (code_or_minus1 out2)),
      w\<lparr>spawned := spawned w @ [[''remote''], [''remote'', ''get-url'', ''origin'']]\<rparr>)"
  using assms by (simp add: extract_repo_name_and_owner_def io_bind_apply str_contains_sublist)

theorem extract_origin_substring_witness:
  "extract_repo_name_and_owner demo_config
     (demo_world ((demo_git ''origin2\<newline>'' '''' '''')([''remote'', ''get-url'', ''origin''] :=
        Some \<lparr>exit_code = Some 2, stdout = ''''\<rparr>)) []) =
   (Inl (OriginUrlFailed url_err_msg 2),
    (demo_world ((demo_git ''origin2\<newline>'' '''' '''')([''remote'', ''get-url'', ''origin''] :=
        Some \<lparr>exit_code = Some 2, stdout = ''''\<rparr>)) [])
      \<lparr>spawned := [[''remote''], [''remote'', ''get-url'', ''origin'']]\<rparr>)"
proof -
  let ?g = "(demo_git ''origin2\<newline>'' '''' '''')([''remote'', ''get-url'', ''origin''] :=
        Some \<lparr>exit_code = Some 2, stdout = ''''\<rparr>)"
  have g1: "git (demo_world ?g []) [''remote''] = Some \<lparr>exit_code = Some 0, stdout = ''origin2\<newline>''\<rparr>"
    by (simp add: demo_world_def demo_git_def)
  have g2: "git (demo_world ?g []) [''remote'', ''get-url'', ''origin''] =
      Some \<lparr>exit_code = Some 2, stdout = ''''\<rparr>"
    by (simp add: demo_world_def)
  have ok: "status_success \<lparr>exit_code = Some 0, stdout = ''origin2\<newline>''\<rparr>"
    by (simp add: status_success_def)
  have bad: "\<not> status_success \<lparr>exit_code = Some 2, stdout = ''''\<rparr>"
    by (simp add: status_success_def)
  have sub: "sublist ''origin'' (trim (stdout \<lparr>exit_code = Some (0::int), stdout = ''origin2\<newline>''\<rparr>))"
    unfolding str_contains_sublist [symmetric] by code_simp
  show ?thesis
    using extract_origin_substring [OF g1 ok sub g2 bad]
    by (simp add: demo_world_def code_or_minus1_def)
qed

text \<open>C4: the \<^verbatim>\<open>.git\<close> suffix is required, not optional: when the last
  \<^verbatim>\<open>/\<close>-segment of the origin URL does not end in \<^verbatim>\<open>.git\<close> the inspector
  panics with the repository-name message.\<close>

theorem extract_requires_git_suffix:
  assumes "git w [''remote''] = Some out" and "status_success out"
    and "str_contains (trim (stdout out)) ''origin''"
    and "git w [''remote'', ''get-url'', ''origin''] = Some out2" and "status_success out2"
    and "\<not> suffix ''.git'' (name_segment (trim (stdout out2)))"
  shows "extract_repo_name_and_owner c w =
     (Inl (RepoNameNotFound (trim (stdout out2))),
      w\<lparr>spawned := spawned w @ [[''remote''], [''remote'', ''get-url'', ''origin'']]\<rparr>)"
proof -
  from assms(6) have "repo_name_of_url (trim (stdout out2)) = None"
    by (simp add: repo_name_of_url_eq strip_suffix_None_iff)
  then show ?thesis
    using extract_after_origin [OF assms(1-5)] by simp
qed

theorem extract_requires_git_suffix_witness:
  "extract_repo_name_and_owner demo_config
     (demo_world (demo_git ''origin\<newline>'' ''https://example.com/octocat/hello-world\<newline>'' '''') []) =
   (Inl (RepoNameNotFound ''https://example.com/octocat/hello-world''),
    (demo_world (demo_git ''origin\<newline>'' ''https://example.com/octocat/hello-world\<newline>'' '''') [])
      \<lparr>spawned := [[''remote''], [''remote'', ''get-url'', ''origin'']]\<rparr>)"
proof -
  let ?w = "demo_world (demo_git ''origin\<newline>'' ''https://example.com/octocat/hello-world\<newline>'' '''') []"
  have g1: "git ?w [''remote''] = Some \<lparr>exit_code = Some 0, stdout = ''origin\<newline>''\<rparr>"
    by (simp add: demo_world_def demo_git_def)
  have g2: "git ?w [''remote'', ''get-url'', ''origin''] =
      Some \<lparr>exit_code = Some 0, stdout = ''https://example.com/octocat/hello-world\<newline>''\<rparr>"
    by (simp add: demo_world_def demo_git_def)
  have ok: "status_success \<lparr>exit_code = Some 0, stdout = s\<rparr>" for s
    by (simp add: status_success_def)
  have o: "str_contains (trim (stdout \<lparr>exit_code = Some (0::int), stdout = ''origin\<newline>''\<rparr>)) ''origin''"
    by code_simp
  have u: "trim (stdout \<lparr>exit_code = Some (0::int), stdout = ''https://example.com/octocat/hello-world\<newline>''\<rparr>) =
      ''https://example.com/octocat/hello-world''"
    by code_simp
  have ns: "\<not> suffix ''.git'' (name_segment ''https://example.com/octocat/hello-world'')"
    by (simp add: name_segment_def suffix_def)
  show ?thesis
    using extract_requires_git_suffix [OF g1 ok o g2 ok] ns u by (simp add: demo_world_def)
qed


text \<open>C5: for an HTTPS origin URL the derived owner is the empty string, not the
  account in the URL's path: the first \<^verbatim>\<open>/\<close>-piece is \<^verbatim>\<open>https:\<close>, whose
  last \<^verbatim>\<open>:\<close>-piece is empty.\<close>

theorem extract_https_owner_empty:
  assumes "git w [''remote''] = Some out" and "status_success out"
    and "str_contains (trim (stdout out)) ''origin''"
    and "git w [''remote'', ''get-url'', ''origin''] = Some out2" and "status_success out2"
    and "trim (stdout out2) = ''https://'' @ rest"
    and "repo_name_of_url (trim (stdout out2)) = Some name"
  shows "extract_repo_name_and_owner c w =
     (Inr (c\<lparr>repository_name := Some name, repository_owner := Some ''''\<rparr>),
      w\<lparr>spawned := spawned w @ [[''remote''], [''remote'', ''get-url'', ''origin'']]\<rparr>)"
proof -
  have "owner_segment (''https://'' @ rest) = ''''"
    by (simp add: owner_segment_def)
  then show ?thesis
    using extract_after_origin [OF assms(1-5)] assms(6,7) by simp
qed

theorem extract_https_owner_empty_witness:
  "extract_repo_name_and_owner demo_config
     (demo_world (demo_git ''origin\<newline>'' ''https://example.com/octocat/hello-world.git\<newline>'' '''') []) =
   (Inr (demo_config\<lparr>repository_name := Some ''hello-world'', repository_owner := Some ''''\<rparr>),
    (demo_world (demo_git ''origin\<newline>'' ''https://example.com/octocat/hello-world.git\<newline>'' '''') [])
      \<lparr>spawned := [[''remote''], [''remote'', ''get-url'', ''origin'']]\<rparr>)"
proof -
  let ?w = "demo_world (demo_git ''origin\<newline>'' ''https://example.com/octocat/hello-world.git\<newline>'' '''') []"
  have g1: "git ?w [''remote''] = Some \<lparr>exit_code = Some 0, stdout = ''origin\<newline>''\<rparr>"
    by (simp add: demo_world_def demo_git_def)
  have g2: "git ?w [''remote'', ''get-url'', ''origin''] =
      Some \<lparr>exit_code = Some 0, stdout = ''https://example.com/octocat/hello-world.git\<newline>''\<rparr>"
    by (simp add: demo_world_def demo_git_def)
  have ok: "status_success \<lparr>exit_code = Some 0, stdout = s\<rparr>" for s
    by (simp add: status_success_def)
  have o: "str_contains (trim (stdout \<lparr>exit_code = Some (0::int), stdout = ''origin\<newline>''\<rparr>)) ''origin''"
    by code_simp
  have u: "trim (stdout \<lparr>exit_code = Some (0::int), stdout = ''https://example.com/octocat/hello-world.git\<newline>''\<rparr>) =
      ''https://'' @ ''example.com/octocat/hello-world.git''"
    by code_simp
  have n: "repo_name_of_url (''https://'' @ ''example.com/octocat/hello-world.git'') = Some ''hello-world''"
    by code_simp
  show ?thesis
    using extract_https_owner_empty [OF g1 ok o g2 ok u] u n by (simp add: demo_world_def)
qed

text \<open>C6: the owner derivation cannot fail, so the panic of line 121 is
  unreachable: whatever git answers, the inspector never ends with the
  owner-extraction panic.\<close>

theorem extract_owner_panic_unreachable:
  "fst (extract_repo_name_and_owner c w) \<noteq> Inl (RepoOwnerNotFound u)"
  by (simp add: extract_repo_name_and_owner_def io_bind_apply repo_owner_of_url_eq Let_def
      split: option.split)

text \<open>C7: \<^verbatim>\<open>join_root_path\<close> places a relative path under the repository root
  that \<^verbatim>\<open>git rev-parse --show-toplevel\<close> reports: the result's components are
  the root's followed by the relative path's.\<close>

theorem join_root_path_under_root:
  assumes "git w [''rev-parse'', ''--show-toplevel''] = Some out" and "status_success out"
    and "starts_with (trim (stdout out)) ''/''" and "\<not> starts_with rel ''/''"
  shows "join_root_path rel w =
           (Inr (path_join (trim (stdout out)) rel),
            w\<lparr>spawned := spawned w @ [[''rev-parse'', ''--show-toplevel'']]\<rparr>)
         \<and> components (path_join (trim (stdout out)) rel) =
           components (trim (stdout out)) @ filter (\<lambda>c. c \<noteq> CurDir) (components rel)"
  using assms components_path_join [OF assms(3,4)]
  by (simp add: join_root_path_def get_repository_root_path_def io_bind_apply)

theorem join_root_path_under_root_witness:
  "join_root_path ''.github/workflows/test_action.yml''
     (demo_world (demo_git '''' '''' ''/home/dev/repo\<newline>'') []) =
     (Inr ''/home/dev/repo/.github/workflows/test_action.yml'',
      (demo_world (demo_git '''' '''' ''/home/dev/repo\<newline>'') [])
        \<lparr>spawned := [[''rev-parse'', ''--show-toplevel'']]\<rparr>)
   \<and> components ''/home/dev/repo/.github/workflows/test_action.yml'' =
       [RootDir, Normal ''home'', Normal ''dev'', Normal ''repo'',
        Normal ''.github'', Normal ''workflows'', Normal ''test_action.yml'']"
proof -
  let ?w = "demo_world (demo_git '''' '''' ''/home/dev/repo\<newline>'') []"
  have g: "git ?w [''rev-parse'', ''--show-toplevel''] = Some \<lparr>exit_code = Some 0, stdout = ''/home/dev/repo\<newline>''\<rparr>"
    by (simp add: demo_world_def demo_git_def)
  have ok: "status_success \<lparr>exit_code = Some 0, stdout = ''/home/dev/repo\<newline>''\<rparr>"
    by (simp add: status_success_def)
  have t: "trim (stdout \<lparr>exit_code = Some (0::int), stdout = ''/home/dev/repo\<newline>''\<rparr>) = ''/home/dev/repo''"
    by code_simp
  have a: "starts_with (trim (stdout \<lparr>exit_code = Some (0::int), stdout = ''/home/dev/repo\<newline>''\<rparr>)) ''/''"
    unfolding t by simp
  have r: "\<not> starts_with ''.github/workflows/test_action.yml'' ''/''"
    by simp
  have j: "path_join ''/home/dev/repo'' ''.github/workflows/test_action.yml'' =
      ''/home/dev/repo/.github/workflows/test_action.yml''"
    by (simp add: path_join_def)
  have c: "components ''/home/dev/repo'' @ filter (\<lambda>c. c \<noteq> CurDir) (components ''.github/workflows/test_action.yml'') =
       [RootDir, Normal ''home'', Normal ''dev'', Normal ''repo'',
        Normal ''.github'', Normal ''workflows'', Normal ''test_action.yml'']"
    by code_simp
  show ?thesis
    using join_root_path_under_root [OF g ok a r] t j c by (simp add: demo_world_def)
qed

end
