(* ===== verification/Templates.thy ===== *)
theory Templates
  imports World
begin

text \<open>
  The template set and the rendering engine of \<^verbatim>\<open>generate.rs\<close>: the struct
  \<^verbatim>\<open>Template\<close> (lines 133--138), \<^verbatim>\<open>Template::new\<close> (141--150), which reads
  the template text eagerly, \<^verbatim>\<open>Template::read_templates\<close> (152--158), which
  registers every template under its name, and
  \<^verbatim>\<open>Template::write_rendered_templates\<close> (160--184), which fetches, renders,
  creates the destination's parent directories and writes, one template at a
  time.  The minijinja \<^verbatim>\<open>Environment\<close> is a record of its trim-blocks flag
  and its template store, a map from names to compiled templates
  (\<^verbatim>\<open>add_template\<close> compiles at once, with the flag current at that moment,
  and replaces a template of the same name).  Compiling and rendering are the
  library's \<open>compile\<close> and \<open>render\<close> of \<open>'c libs\<close>; rendering receives the
  configuration serialized by its derived \<^verbatim>\<open>Serialize\<close>.
\<close>

record template =
  template_name :: string
  content :: string
  rendered_path :: string

record 'c environment =
  trim_blocks :: bool
  templates :: "string \<rightharpoonup> 'c"

definition env_new :: "'c environment" where
  "env_new = \<lparr>trim_blocks = False, templates = Map.empty\<rparr>"

definition set_trim_blocks :: "bool \<Rightarrow> 'c environment \<Rightarrow> 'c environment" where
  "set_trim_blocks b env = env\<lparr>trim_blocks := b\<rparr>"

definition add_template :: "'c libs \<Rightarrow> string \<Rightarrow> string \<Rightarrow> 'c environment \<Rightarrow> tmpl_error + 'c environment" where
  "add_template L name src env =
     ebind (compile L (trim_blocks env) name src)
       (\<lambda>ct. Inr (env\<lparr>templates := (templates env)(name \<mapsto> ct)\<rparr>))"

definition get_template :: "'c environment \<Rightarrow> string \<Rightarrow> tmpl_error + 'c" where
  "get_template env name =
     (case templates env name of None \<Rightarrow> Inl (TemplateNotFound name) | Some ct \<Rightarrow> Inr ct)"

definition template_new :: "string \<Rightarrow> string \<Rightarrow> string \<Rightarrow> template io" where
  "template_new name src_path dest =
     io_bind (read_to_string src_path) (\<lambda>r. case r of
       Inl _ \<Rightarrow> io_panic (TemplateReadFailed src_path)
     | Inr text \<Rightarrow> io_return \<lparr>template_name = name, content = text, rendered_path = dest\<rparr>)"

fun read_templates :: "'c libs \<Rightarrow> template list \<Rightarrow> 'c environment \<Rightarrow> 'c environment io" where
  "read_templates L [] env = io_return env"
| "read_templates L (t # ts) env =
     io_bind (println (''Reading template: '' @ template_name t)) (\<lambda>_.
       case add_template L (template_name t) (content t) env of
         Inl e \<Rightarrow> io_panic (TemplateAddFailed e)
       | Inr env' \<Rightarrow> read_templates L ts env')"

text \<open>One iteration of the loop of \<^verbatim>\<open>write_rendered_templates\<close>.\<close>

definition write_one :: "'c libs \<Rightarrow> 'c environment \<Rightarrow> config \<Rightarrow> template \<Rightarrow> unit io" where
  "write_one L env cfg t =
     (case get_template env (template_name t) of
        Inl e \<Rightarrow> io_panic (TemplateGetFailed e)
      | Inr tmpl \<Rightarrow>
          io_bind (println (''Rendering template: '' @ template_name t)) (\<lambda>_.
          case render L tmpl (serialize_config cfg) of
            Inl e \<Rightarrow> io_panic (TemplateRenderFailed e)
          | Inr rendered \<Rightarrow>
              io_bind (println (''Writing rendered template to: '' @ rendered_path t)) (\<lambda>_.
              io_bind
                (case path_parent (components (rendered_path t)) of
                   None \<Rightarrow> io_return ()
                 | Some p \<Rightarrow> io_bind (fs_create_dir_all p) (\<lambda>r. case r of
                     Inl _ \<Rightarrow> io_panic (CreateDirFailed p)
                   | Inr _ \<Rightarrow> io_return ()))
                (\<lambda>_. io_bind (fs_write (rendered_path t) rendered) (\<lambda>r. case r of
                     Inl _ \<Rightarrow> io_panic (WriteFailed (rendered_path t))
                   | Inr _ \<Rightarrow> io_return ())))))"

fun write_rendered_templates :: "'c libs \<Rightarrow> template list \<Rightarrow> 'c environment \<Rightarrow> config \<Rightarrow> unit io" where
  "write_rendered_templates L [] env cfg = io_return ()"
| "write_rendered_templates L (t # ts) env cfg =
     io_bind (write_one L env cfg t) (\<lambda>_. write_rendered_templates L ts env cfg)"


subsection \<open>Observations and invariants\<close>

text \<open>The lines \<^verbatim>\<open>read_templates\<close> and one iteration of \<^verbatim>\<open>write_rendered_templates\<close> print.\<close>

definition reading_lines :: "template list \<Rightarrow> string list" where
  "reading_lines ts = map (\<lambda>t. ''Reading template: '' @ template_name t) ts"

definition writing_lines :: "template \<Rightarrow> string list" where
  "writing_lines t = [''Rendering template: '' @ template_name t, ''Writing rendered template to: '' @ rendered_path t]"

text \<open>Prepare the parent directory (the \<^verbatim>\<open>if let\<close> of lines 171--176).\<close>

definition prepare_parent :: "fs \<Rightarrow> string list \<Rightarrow> component list \<Rightarrow> io_error + fs" where
  "prepare_parent files wd cs = (case path_parent cs of None \<Rightarrow> Inr files | Some p \<Rightarrow> create_dir_all files wd p)"

definition world_ok :: "world \<Rightarrow> bool" where
  "world_ok w \<longleftrightarrow> fs_wf (fs w) \<and> cwd_ok (fs w) (cwd w)"

text \<open>The effect of one step on the world, whatever its outcome.\<close>

definition world_step :: "world \<Rightarrow> world \<Rightarrow> bool" where
  "world_step w w' \<longleftrightarrow> no_removal (fs w) (fs w') \<and> cwd w' = cwd w \<and> git w' = git w
     \<and> spawned w' = spawned w \<and> prefix (console w) (console w')"


text \<open>
  The states on which a successful run of the loop can be replayed: same
  working directory, every directory the first run ended with, and no
  directory where it left a file.
\<close>

definition replay_ok :: "world \<Rightarrow> world \<Rightarrow> world \<Rightarrow> bool" where
  "replay_ok w W v \<longleftrightarrow> cwd v = cwd w \<and> dirs_kept (fs W) (fs v)
     \<and> (\<forall>k s. map_of (fs W) k = Some (File s) \<longrightarrow> map_of (fs v) k \<noteq> Some Dir)"

text \<open>A template descriptor used by the witnesses.\<close>

definition demo_test_action :: template where
  "demo_test_action = \<lparr>template_name = ''test-action'', content = ''on: push'',
     rendered_path = ''/home/dev/repo/.github/workflows/test_action.yml''\<rparr>"



subsection \<open>Registering templates\<close>

lemma add_template_Inr:
  "compile L (trim_blocks env) name src = Inr c \<Longrightarrow>
   add_template L name src env = Inr (env\<lparr>templates := (templates env)(name \<mapsto> c)\<rparr>)"
  by (simp add: add_template_def)

text \<open>
  C12: when every template compiles, \<^verbatim>\<open>read_templates\<close> registers each of them under its name, compiled with the trim-blocks flag current when it starts (a later template of the same name replaces an earlier one), leaves the flag as it was and prints one line per template, in order.
\<close>

theorem read_templates_registers:
  assumes "\<And>t. t \<in> set ts \<Longrightarrow> compile L (trim_blocks env) (template_name t) (content t) = Inr (cc t)"
  shows "\<exists>env'. read_templates L ts env w = (Inr env', w\<lparr>console := console w @ reading_lines ts\<rparr>)
           \<and> trim_blocks env' = trim_blocks env
           \<and> templates env' = templates env ++ map_of (rev (map (\<lambda>t. (template_name t, cc t)) ts))"
  using assms
proof (induction ts arbitrary: env w)
  case Nil
  then show ?case by (simp add: reading_lines_def)
next
  case (Cons t ts)
  define env1 where "env1 = env\<lparr>templates := (templates env)(template_name t \<mapsto> cc t)\<rparr>"
  have add: "add_template L (template_name t) (content t) env = Inr env1"
    unfolding env1_def using Cons.prems by (simp add: add_template_Inr)
  have tb: "trim_blocks env1 = trim_blocks env" and tm: "templates env1 = (templates env)(template_name t \<mapsto> cc t)"
    by (simp_all add: env1_def)
  define w1 where "w1 = w\<lparr>console := console w @ [''Reading template: '' @ template_name t]\<rparr>"
  have "\<And>t'. t' \<in> set ts \<Longrightarrow> compile L (trim_blocks env1) (template_name t') (content t') = Inr (cc t')"
    using Cons.prems tb by simp
  from Cons.IH [OF this, of w1] obtain env' where
    r: "read_templates L ts env1 w1 = (Inr env', w1\<lparr>console := console w1 @ reading_lines ts\<rparr>)"
    and tb': "trim_blocks env' = trim_blocks env1"
    and tm': "templates env' = templates env1 ++ map_of (rev (map (\<lambda>t. (template_name t, cc t)) ts))"
    by blast
  from add r have "read_templates L (t # ts) env w = (Inr env', w\<lparr>console := console w @ reading_lines (t # ts)\<rparr>)"
    by (simp add: io_bind_apply reading_lines_def w1_def)
  with tb tb' tm tm' show ?case
    by simp
qed

text \<open>
  C13: the first template that does not compile stops \<^verbatim>\<open>read_templates\<close> with the panic of line 156 carrying the compiler's error, after the lines of the templates before it and its own have been printed; the templates after it are never looked at.
\<close>

theorem read_templates_first_failure:
  assumes "\<And>t. t \<in> set pre \<Longrightarrow> compile L (trim_blocks env) (template_name t) (content t) = Inr (cc t)"
    and "compile L (trim_blocks env) (template_name t) (content t) = Inl e"
  shows "read_templates L (pre @ t # post) env w =
           (Inl (TemplateAddFailed e), w\<lparr>console := console w @ reading_lines (pre @ [t])\<rparr>)"
  using assms
proof (induction pre arbitrary: env w)
  case Nil
  then show ?case by (simp add: io_bind_apply add_template_def reading_lines_def)
next
  case (Cons t0 pre)
  let ?env' = "env\<lparr>templates := (templates env)(template_name t0 \<mapsto> cc t0)\<rparr>"
  have add: "add_template L (template_name t0) (content t0) env = Inr ?env'"
    using Cons.prems by (simp add: add_template_def)
  from Cons.IH [of ?env'] Cons.prems add show ?case
    by (simp add: io_bind_apply reading_lines_def)
qed


subsection \<open>Rendering and writing one template\<close>

lemma write_one_eq:
  "write_one L env cfg t w =
     (case templates env (template_name t) of
        None \<Rightarrow> (Inl (TemplateGetFailed (TemplateNotFound (template_name t))), w)
      | Some ct \<Rightarrow>
          (case render L ct (serialize_config cfg) of
             Inl e \<Rightarrow> (Inl (TemplateRenderFailed e), w\<lparr>console := console w @ [''Rendering template: '' @ template_name t]\<rparr>)
           | Inr r \<Rightarrow>
               (case prepare_parent (fs w) (cwd w) (components (rendered_path t)) of
                  Inl _ \<Rightarrow> (Inl (CreateDirFailed (the (path_parent (components (rendered_path t))))),
                             w\<lparr>console := console w @ writing_lines t\<rparr>)
                | Inr fs1 \<Rightarrow>
                    (case write_file fs1 (cwd w) (components (rendered_path t)) r of
                       Inl _ \<Rightarrow> (Inl (WriteFailed (rendered_path t)), w\<lparr>fs := fs1, console := console w @ writing_lines t\<rparr>)
                     | Inr fs2 \<Rightarrow> (Inr (), w\<lparr>fs := fs2, console := console w @ writing_lines t\<rparr>)))))"
  by (simp add: write_one_def get_template_def io_bind_apply fs_create_dir_all_def fs_write_def
      prepare_parent_def writing_lines_def
      split: option.split sum.split)

text \<open>
  C14: a registered template that renders is written: if its destination is an existing directory path followed by names that are not files, and the destination itself is not a directory, one iteration of \<^verbatim>\<open>write_rendered_templates\<close> succeeds, creating the missing directories, and afterwards reading the destination gives the rendered text.
\<close>

theorem write_one_writes_file:
  assumes reg: "templates env (template_name t) = Some ct"
    and rn: "render L ct (serialize_config cfg) = Inr r"
    and path: "components (rendered_path t) = pre @ map Normal ns @ [Normal f]"
    and wk: "walk (fs w) (cwd w) pre = Inr d"
    and nf: "no_file_on (fs w) d ns"
    and nd: "map_of (fs w) (d @ ns @ [f]) \<noteq> Some Dir"
  shows "\<exists>fs'. write_one L env cfg t w = (Inr (), w\<lparr>fs := fs', console := console w @ writing_lines t\<rparr>)
           \<and> read_file fs' (cwd w) (components (rendered_path t)) = Inr r"
proof -
  obtain fs1 where c: "create_dir_all (fs w) (cwd w) (pre @ map Normal ns) = Inr fs1"
    and w1: "walk fs1 (cwd w) (pre @ map Normal ns) = Inr (d @ ns)"
    and u1: "unchanged_below (length (d @ ns)) (fs w) fs1"
    using create_dir_all_ready [OF wk nf] by blast
  have pp: "prepare_parent (fs w) (cwd w) (components (rendered_path t)) = Inr fs1"
    using c path path_parent_snoc [of "Normal f" "pre @ map Normal ns"]
    by (simp add: prepare_parent_def)
  have "map_of fs1 ((d @ ns) @ [f]) \<noteq> Some Dir"
    using u1 nd by (simp add: unchanged_below_def)
  from write_file_after_walk [OF w1 this]
  have wr: "write_file fs1 (cwd w) (components (rendered_path t)) r
              = Inr (AList.update ((d @ ns) @ [f]) (File r) fs1)"
    by (simp add: path)
  with reg rn pp show ?thesis
    by (intro exI [of _ "AList.update ((d @ ns) @ [f]) (File r) fs1"]) (simp add: write_one_eq write_file_read)
qed

lemma write_one_Inr:
  assumes "write_one L env cfg t w = (Inr u, w')"
  obtains ct r fs1 fs2 where "templates env (template_name t) = Some ct"
    and "render L ct (serialize_config cfg) = Inr r"
    and "prepare_parent (fs w) (cwd w) (components (rendered_path t)) = Inr fs1"
    and "write_file fs1 (cwd w) (components (rendered_path t)) r = Inr fs2"
    and "w' = w\<lparr>fs := fs2, console := console w @ writing_lines t\<rparr>"
  using assms by (auto simp: write_one_eq split: option.splits sum.splits)

lemma prepare_parent_again:
  assumes "prepare_parent files wd cs = Inr fs1" and "dirs_kept fs1 fs2"
  shows "prepare_parent fs2 wd cs = Inr fs2"
proof (cases "path_parent cs")
  case (Some p)
  show ?thesis
  proof (cases "p = []")
    case False
    with Some assms(1) have "is_dir fs1 wd p"
      by (simp add: prepare_parent_def create_dir_all_is_dir)
    with Some assms(2) show ?thesis
      by (simp add: prepare_parent_def create_dir_all_is_dir_noop is_dir_kept)
  qed (use Some in \<open>simp add: prepare_parent_def\<close>)
qed (simp add: prepare_parent_def)

text \<open>
  C15: one iteration of \<^verbatim>\<open>write_rendered_templates\<close> is idempotent: run again on the world it produced, it succeeds and leaves the file system unchanged (only the two progress lines are printed again).
\<close>

theorem write_one_idempotent:
  assumes "write_one L env cfg t w = (Inr (), w1)"
  shows "write_one L env cfg t w1 = (Inr (), w1\<lparr>console := console w1 @ writing_lines t\<rparr>)"
  using assms
proof (rule write_one_Inr)
  fix ct r fs1 fs2
  assume reg: "templates env (template_name t) = Some ct"
    and rn: "render L ct (serialize_config cfg) = Inr r"
    and pp: "prepare_parent (fs w) (cwd w) (components (rendered_path t)) = Inr fs1"
    and wr: "write_file fs1 (cwd w) (components (rendered_path t)) r = Inr fs2"
    and w1: "w1 = w\<lparr>fs := fs2, console := console w @ writing_lines t\<rparr>"
  have "prepare_parent fs2 (cwd w) (components (rendered_path t)) = Inr fs2"
    using pp write_file_dirs_kept [OF wr] by (rule prepare_parent_again)
  moreover have "write_file fs2 (cwd w) (components (rendered_path t)) r = Inr fs2"
    using wr by (rule write_file_idem)
  ultimately show ?thesis
    using reg rn w1 by (simp add: write_one_eq)
qed


subsection \<open>What the loop keeps\<close>

lemma prepare_parent_keeps:
  assumes "prepare_parent files wd cs = Inr fs1" and "fs_wf files" and "cwd_ok files wd"
  shows "fs_wf fs1 \<and> cwd_ok fs1 wd \<and> no_removal files fs1"
proof (cases "path_parent cs")
  case (Some p)
  with assms(1) have c: "create_dir_all files wd p = Inr fs1" by (simp add: prepare_parent_def)
  have e: "extends files fs1" using c by (rule create_dir_all_extends)
  show ?thesis
    using create_dir_all_wf [OF c assms(2,3)] cwd_ok_kept [OF assms(3) extends_dirs_kept [OF e]]
      extends_no_removal [OF e] by blast
qed (use assms in \<open>simp add: prepare_parent_def\<close>)

lemma write_file_keeps:
  assumes "write_file files wd cs text = Inr fs2" and "fs_wf files" and "cwd_ok files wd"
  shows "fs_wf fs2 \<and> cwd_ok fs2 wd \<and> no_removal files fs2"
  using write_file_wf [OF assms] cwd_ok_kept [OF assms(3) write_file_dirs_kept [OF assms(1)]]
    write_file_no_removal [OF assms(1)] by blast

lemma world_step_refl [simp]: "world_step w w"
  by (simp add: world_step_def)

lemma world_step_trans: "world_step a b \<Longrightarrow> world_step b c \<Longrightarrow> world_step a c"
  unfolding world_step_def by (auto intro: no_removal_trans prefix_order.trans)

lemma write_one_keeps:
  assumes "write_one L env cfg t w = (x, w')" and "world_ok w"
  shows "world_ok w' \<and> world_step w w'"
proof -
  have ok: "fs_wf (fs w)" "cwd_ok (fs w) (cwd w)" using assms(2) by (simp_all add: world_ok_def)
  show ?thesis
  proof (cases "templates env (template_name t)")
    case (Some ct)
    show ?thesis
    proof (cases "render L ct (serialize_config cfg)")
      case (Inr r)
      show ?thesis
      proof (cases "prepare_parent (fs w) (cwd w) (components (rendered_path t))")
        case (Inr fs1)
        note k1 = prepare_parent_keeps [OF Inr ok]
        show ?thesis
        proof (cases "write_file fs1 (cwd w) (components (rendered_path t)) r")
          case (Inr fs2)
          note k2 = write_file_keeps [OF Inr conjunct1 [OF k1] conjunct1 [OF conjunct2 [OF k1]]]
          from assms(1) Some \<open>render L ct (serialize_config cfg) = Inr r\<close> \<open>prepare_parent (fs w) (cwd w) (components (rendered_path t)) = Inr fs1\<close> Inr
          have "w' = w\<lparr>fs := fs2, console := console w @ writing_lines t\<rparr>" by (simp add: write_one_eq)
          with k1 k2 show ?thesis by (auto simp: world_ok_def world_step_def intro: no_removal_trans)
        next
          case (Inl e)
          from assms(1) Some \<open>render L ct (serialize_config cfg) = Inr r\<close> \<open>prepare_parent (fs w) (cwd w) (components (rendered_path t)) = Inr fs1\<close> Inl
          have "w' = w\<lparr>fs := fs1, console := console w @ writing_lines t\<rparr>" by (simp add: write_one_eq)
          with k1 show ?thesis by (auto simp: world_ok_def world_step_def)
        qed
      qed (use assms Some Inr in \<open>auto simp: write_one_eq world_ok_def world_step_def\<close>)
    qed (use assms Some in \<open>auto simp: write_one_eq world_ok_def world_step_def\<close>)
  qed (use assms in \<open>auto simp: write_one_eq world_ok_def world_step_def\<close>)
qed

text \<open>
  The loop keeps the file-system invariant and removes nothing, whether it
  finishes or panics, and leaves the working directory, the \<^verbatim>\<open>git\<close> log
  and the printed lines before it alone.
\<close>

lemma write_rendered_templates_keeps:
  "write_rendered_templates L ts env cfg w = (x, w') \<Longrightarrow> world_ok w \<Longrightarrow> world_ok w' \<and> world_step w w'"
proof (induction ts arbitrary: w)
  case (Cons t ts)
  obtain y w1 where one: "write_one L env cfg t w = (y, w1)" by fastforce
  note k = write_one_keeps [OF one Cons.prems(2)]
  show ?case
  proof (cases y)
    case (Inl e)
    with Cons.prems(1) one k show ?thesis by (simp add: io_bind_apply)
  next
    case (Inr u)
    with Cons.prems(1) one have "write_rendered_templates L ts env cfg w1 = (x, w')"
      by (simp add: io_bind_apply)
    from Cons.IH [OF this conjunct1 [OF k]] k show ?thesis by (blast intro: world_step_trans)
  qed
qed simp


subsection \<open>What the loop writes\<close>

lemma map_add_upd_swap: "g k = None \<Longrightarrow> f(k \<mapsto> v) ++ g = (f ++ g)(k \<mapsto> v)"
  by (auto simp: fun_eq_iff map_add_def split: option.split)

lemma map_upd_add_assoc: "f(k \<mapsto> v) ++ g = f ++ ([k \<mapsto> v] ++ g)"
  by (auto simp: fun_eq_iff map_add_def split: option.split)

lemma map_add_idem_right: "(f ++ g) ++ g = f ++ g"
  by (auto simp: fun_eq_iff map_add_def split: option.split)

lemma extends_split:
  assumes "extends A B"
  shows "map_of B = map_of A ++ (\<lambda>k. if k \<in> dom (map_of A) then None else map_of B k)
         \<and> dom (\<lambda>k. if k \<in> dom (map_of A) then None else map_of B k) \<inter> dom (map_of A) = {}"
proof (intro conjI ext)
  fix k
  show "map_of B k = (map_of A ++ (\<lambda>k. if k \<in> dom (map_of A) then None else map_of B k)) k"
  proof (cases "map_of A k")
    case (Some y)
    with assms have "map_of B k = Some y" by (simp add: extends_def)
    with Some show ?thesis by (simp add: map_add_def domI)
  qed (simp add: map_add_def domIff split: option.split)
qed (auto simp: domI split: if_splits)

lemma prepare_parent_extends: "prepare_parent A wd cs = Inr B \<Longrightarrow> extends A B"
  by (cases "path_parent cs") (auto simp: prepare_parent_def intro: create_dir_all_extends)

lemma io_bind_Inr_unit:
  assumes "io_bind (write_one L env cfg t) (\<lambda>_. m) w = (Inr (), W)"
  obtains w1 where "write_one L env cfg t w = (Inr (), w1)" and "m w1 = (Inr (), W)"
  using assms by (auto simp: io_bind_apply split: prod.splits sum.splits)










subsection \<open>Rendering twice\<close>

text \<open>
  One successful iteration, seen twice: in the first run it adds new
  directories and then sets the resolved destination \<open>q\<close> to the rendered
  text; run again on any state that still has the first run's directories
  and no directory where it wrote a file, it only sets \<open>q\<close> to the same text.
\<close>

lemma write_one_replay:
  assumes one: "write_one L env cfg t w = (Inr (), w1)"
  shows "\<exists>q r C. map_of (fs w1) q = Some (File r)
           \<and> dom C \<inter> dom (map_of (fs w)) = {}
           \<and> map_of (fs w1) = (map_of (fs w) ++ C)(q \<mapsto> File r)
           \<and> (\<forall>v. cwd v = cwd w \<longrightarrow> dirs_kept (fs w1) (fs v)
                  \<longrightarrow> (\<forall>k s. map_of (fs w1) k = Some (File s) \<longrightarrow> map_of (fs v) k \<noteq> Some Dir)
                  \<longrightarrow> write_one L env cfg t v
                        = (Inr (), v\<lparr>fs := AList.update q (File r) (fs v), console := console v @ writing_lines t\<rparr>))"
  using one
proof (rule write_one_Inr)
  fix ct r fs1 fs2
  assume reg: "templates env (template_name t) = Some ct"
    and rn: "render L ct (serialize_config cfg) = Inr r"
    and pp: "prepare_parent (fs w) (cwd w) (components (rendered_path t)) = Inr fs1"
    and wr: "write_file fs1 (cwd w) (components (rendered_path t)) r = Inr fs2"
    and w1: "w1 = w\<lparr>fs := fs2, console := console w @ writing_lines t\<rparr>"
  from wr obtain init n d where cs: "components (rendered_path t) = init @ [Normal n]"
    and wk: "walk fs1 (cwd w) init = Inr d" and nd: "map_of fs1 (d @ [n]) \<noteq> Some Dir"
    and fs2: "fs2 = AList.update (d @ [n]) (File r) fs1"
    by (rule write_file_Inr)
  define C where "C = (\<lambda>k. if k \<in> dom (map_of (fs w)) then None else map_of fs1 k)"
  have split: "map_of fs1 = map_of (fs w) ++ C \<and> dom C \<inter> dom (map_of (fs w)) = {}"
    unfolding C_def by (rule extends_split [OF prepare_parent_extends [OF pp]])
  have k12: "dirs_kept fs1 fs2" using wr by (rule write_file_dirs_kept)
  have replay: "write_one L env cfg t v
      = (Inr (), v\<lparr>fs := AList.update (d @ [n]) (File r) (fs v), console := console v @ writing_lines t\<rparr>)"
    if cv: "cwd v = cwd w" and kv: "dirs_kept fs2 (fs v)"
      and fv: "\<forall>k s. map_of fs2 k = Some (File s) \<longrightarrow> map_of (fs v) k \<noteq> Some Dir" for v
  proof -
    have k1v: "dirs_kept fs1 (fs v)" using k12 kv by (rule dirs_kept_trans)
    have "prepare_parent (fs v) (cwd v) (components (rendered_path t)) = Inr (fs v)"
      using prepare_parent_again [OF pp k1v] cv by simp
    moreover have "walk (fs v) (cwd v) init = Inr d" using walk_kept [OF wk k1v] cv by simp
    moreover have "map_of (fs v) (d @ [n]) \<noteq> Some Dir" using fv fs2 by simp
    ultimately show ?thesis
      using reg rn cs by (simp add: write_one_eq write_file_after_walk)
  qed
  show ?thesis
    using split replay w1 fs2 by (intro exI [of _ "d @ [n]"] exI [of _ r] exI [of _ C]) auto
qed

lemma write_rendered_templates_replay:
  assumes "write_rendered_templates L ts env cfg w = (Inr (), W)" and "world_ok w"
  shows "\<exists>X ws. dom X \<inter> dom (map_of (fs w)) = {}
           \<and> map_of (fs W) = (map_of (fs w) ++ X) ++ map_of (rev ws)
           \<and> (\<forall>v. replay_ok w W v \<longrightarrow>
                (\<exists>v'. write_rendered_templates L ts env cfg v = (Inr (), v')
                      \<and> map_of (fs v') = map_of (fs v) ++ map_of (rev ws)
                      \<and> console v' = console v @ concat (map writing_lines ts)))"
  using assms
proof (induction ts arbitrary: w)
  case Nil
  then show ?case by (intro exI [of _ Map.empty] exI [of _ "[]"]) auto
next
  case (Cons t ts)
  from Cons.prems(1) obtain w1 where one: "write_one L env cfg t w = (Inr (), w1)"
    and rest: "write_rendered_templates L ts env cfg w1 = (Inr (), W)"
    by (auto elim!: io_bind_Inr_unit)
  have ok1: "world_ok w1" and st1: "world_step w w1"
    using write_one_keeps [OF one Cons.prems(2)] by auto
  have stW: "world_step w1 W"
    using write_rendered_templates_keeps [OF rest ok1] by blast
  obtain X' ws' where dX': "dom X' \<inter> dom (map_of (fs w1)) = {}"
    and mW: "map_of (fs W) = (map_of (fs w1) ++ X') ++ map_of (rev ws')"
    and re: "\<forall>v. replay_ok w1 W v \<longrightarrow> (\<exists>v'. write_rendered_templates L ts env cfg v = (Inr (), v')
                 \<and> map_of (fs v') = map_of (fs v) ++ map_of (rev ws')
                 \<and> console v' = console v @ concat (map writing_lines ts))"
    using Cons.IH [OF rest ok1] by blast
  obtain q r C where q: "map_of (fs w1) q = Some (File r)"
    and dC: "dom C \<inter> dom (map_of (fs w)) = {}"
    and m1: "map_of (fs w1) = (map_of (fs w) ++ C)(q \<mapsto> File r)"
    and step: "\<forall>v. cwd v = cwd w \<longrightarrow> dirs_kept (fs w1) (fs v)
                  \<longrightarrow> (\<forall>k s. map_of (fs w1) k = Some (File s) \<longrightarrow> map_of (fs v) k \<noteq> Some Dir)
                  \<longrightarrow> write_one L env cfg t v
                        = (Inr (), v\<lparr>fs := AList.update q (File r) (fs v), console := console v @ writing_lines t\<rparr>)"
    using write_one_replay [OF one] by blast
  have nrW: "no_removal (fs w1) (fs W)" and cw: "cwd w1 = cwd w"
    using stW st1 by (simp_all add: world_step_def)
  have X'q: "X' q = None" using dX' q by blast
  have dom_sub: "dom (map_of (fs w)) \<subseteq> dom (map_of (fs w1))"
    using m1 by auto
  have rev_cons: "map_of (rev ((q, File r) # ws')) = [q \<mapsto> File r] ++ map_of (rev ws')"
    by simp
  have "map_of (fs W) = ((map_of (fs w) ++ C)(q \<mapsto> File r) ++ X') ++ map_of (rev ws')"
    using mW m1 by simp
  also have "\<dots> = (map_of (fs w) ++ C ++ X')(q \<mapsto> File r) ++ map_of (rev ws')"
    by (simp only: map_add_upd_swap [where g = X' and k = q, OF X'q])
  also have "\<dots> = (map_of (fs w) ++ (C ++ X')) ++ map_of (rev ((q, File r) # ws'))"
    unfolding rev_cons by (subst map_upd_add_assoc) (simp only: map_add_assoc)
  finally have pass1: "map_of (fs W) = (map_of (fs w) ++ (C ++ X')) ++ map_of (rev ((q, File r) # ws'))" .
  have dX: "dom (C ++ X') \<inter> dom (map_of (fs w)) = {}"
    using dC dX' dom_sub by blast
  have pass2: "\<exists>v'. write_rendered_templates L (t # ts) env cfg v = (Inr (), v')
                 \<and> map_of (fs v') = map_of (fs v) ++ map_of (rev ((q, File r) # ws'))
                 \<and> console v' = console v @ concat (map writing_lines (t # ts))"
    if rv: "replay_ok w W v" for v
  proof -
    have cv: "cwd v = cwd w" and kWv: "dirs_kept (fs W) (fs v)"
      and fWv: "\<forall>k s. map_of (fs W) k = Some (File s) \<longrightarrow> map_of (fs v) k \<noteq> Some Dir"
      using rv by (simp_all add: replay_ok_def)
    have k1v: "dirs_kept (fs w1) (fs v)"
      using nrW kWv by (auto simp: no_removal_def intro: dirs_kept_trans)
    have f1v: "\<forall>k s. map_of (fs w1) k = Some (File s) \<longrightarrow> map_of (fs v) k \<noteq> Some Dir"
      using nrW fWv unfolding no_removal_def by blast
    define v1 where "v1 = v\<lparr>fs := AList.update q (File r) (fs v), console := console v @ writing_lines t\<rparr>"
    have s1: "write_one L env cfg t v = (Inr (), v1)"
      using step cv k1v f1v by (simp add: v1_def)
    have vq: "map_of (fs v) q \<noteq> Some Dir" using f1v q by blast
    have "replay_ok w1 W v1"
      unfolding replay_ok_def v1_def using cv cw kWv fWv dirs_kept_update [OF vq, of "File r"]
      by (auto intro: dirs_kept_trans simp: map_of_update_other)
    then obtain v' where r': "write_rendered_templates L ts env cfg v1 = (Inr (), v')"
      and mv': "map_of (fs v') = map_of (fs v1) ++ map_of (rev ws')"
      and cv': "console v' = console v1 @ concat (map writing_lines ts)"
      using re by blast
    have "map_of (fs v1) = (map_of (fs v))(q \<mapsto> File r)"
      by (simp add: v1_def update_conv')
    with mv' have "map_of (fs v') = (map_of (fs v))(q \<mapsto> File r) ++ map_of (rev ws')"
      by (simp only:)
    then have "map_of (fs v') = map_of (fs v) ++ map_of (rev ((q, File r) # ws'))"
      unfolding rev_cons by (simp only: map_upd_add_assoc [of "map_of (fs v)"])
    with s1 r' cv' show ?thesis by (auto simp: io_bind_apply v1_def)
  qed
  show ?case
    using pass1 dX pass2 by blast
qed

text \<open>
  C20: rendering is idempotent: run again on the world a finished run produced, \<^verbatim>\<open>write_rendered_templates\<close> finishes, leaves every path of the file system as the first run left it and prints the same progress lines again.
\<close>

theorem write_rendered_templates_idempotent:
  assumes "write_rendered_templates L ts env cfg w = (Inr (), w1)" and "world_ok w"
  shows "\<exists>w2. write_rendered_templates L ts env cfg w1 = (Inr (), w2) \<and> map_of (fs w2) = map_of (fs w1)
           \<and> console w2 = console w1 @ concat (map writing_lines ts)"
proof -
  obtain X ws where m: "map_of (fs w1) = (map_of (fs w) ++ X) ++ map_of (rev ws)"
    and re: "\<forall>v. replay_ok w w1 v \<longrightarrow> (\<exists>v'. write_rendered_templates L ts env cfg v = (Inr (), v')
                 \<and> map_of (fs v') = map_of (fs v) ++ map_of (rev ws)
                 \<and> console v' = console v @ concat (map writing_lines ts))"
    using write_rendered_templates_replay [OF assms] by blast
  have "cwd w1 = cwd w"
    using write_rendered_templates_keeps [OF assms] by (simp add: world_step_def)
  then have "replay_ok w w1 w1" by (auto simp: replay_ok_def)
  with re m show ?thesis by (auto simp: map_add_idem_right)
qed


subsection \<open>Witnesses\<close>

theorem read_templates_registers_witness:
  "\<exists>env'. read_templates demo_libs
       [\<lparr>template_name = ''action'', content = ''A'', rendered_path = ''../action.yml''\<rparr>,
        \<lparr>template_name = ''readme'', content = ''R'', rendered_path = ''../README.md''\<rparr>]
       (set_trim_blocks True env_new) (demo_world (\<lambda>_. None) demo_fs)
     = (Inr env', (demo_world (\<lambda>_. None) demo_fs)\<lparr>console := [''Reading template: action'', ''Reading template: readme'']\<rparr>)
     \<and> trim_blocks env' = True
     \<and> templates env' = [''action'' \<mapsto> (True, ''A''), ''readme'' \<mapsto> (True, ''R'')]"
proof -
  let ?ts = "[\<lparr>template_name = ''action'', content = ''A'', rendered_path = ''../action.yml''\<rparr>,
        \<lparr>template_name = ''readme'', content = ''R'', rendered_path = ''../README.md''\<rparr>]"
  have h: "\<And>t. t \<in> set ?ts \<Longrightarrow> compile demo_libs (trim_blocks (set_trim_blocks True env_new)) (template_name t) (content t)
          = Inr (True, content t)"
    by (auto simp: demo_libs_def set_trim_blocks_def)
  have r: "\<exists>env'. read_templates demo_libs ?ts (set_trim_blocks True env_new) (demo_world (\<lambda>_. None) demo_fs)
      = (Inr env', (demo_world (\<lambda>_. None) demo_fs)\<lparr>console := console (demo_world (\<lambda>_. None) demo_fs) @ reading_lines ?ts\<rparr>)
      \<and> trim_blocks env' = trim_blocks (set_trim_blocks True env_new :: (bool \<times> string) environment)
      \<and> templates env' = templates (set_trim_blocks True env_new :: (bool \<times> string) environment) ++ map_of (rev (map (\<lambda>t. (template_name t, (True, content t))) ?ts))"
    using h by (rule read_templates_registers)
  from r show ?thesis
    by (simp add: set_trim_blocks_def env_new_def reading_lines_def demo_world_def del: read_templates.simps)
qed

theorem read_templates_first_failure_witness:
  "read_templates demo_libs
       [\<lparr>template_name = ''action'', content = ''A'', rendered_path = ''../action.yml''\<rparr>,
        \<lparr>template_name = ''readme'', content = [], rendered_path = ''../README.md''\<rparr>,
        \<lparr>template_name = ''cargo'', content = ''C'', rendered_path = ''Cargo.toml''\<rparr>]
       (set_trim_blocks True env_new) (demo_world (\<lambda>_. None) demo_fs)
     = (Inl (TemplateAddFailed (SyntaxError ''readme'')),
        (demo_world (\<lambda>_. None) demo_fs)\<lparr>console := [''Reading template: action'', ''Reading template: readme'']\<rparr>)"
proof -
  have r: "read_templates demo_libs
       ([\<lparr>template_name = ''action'', content = ''A'', rendered_path = ''../action.yml''\<rparr>]
        @ \<lparr>template_name = ''readme'', content = [], rendered_path = ''../README.md''\<rparr>
        # [\<lparr>template_name = ''cargo'', content = ''C'', rendered_path = ''Cargo.toml''\<rparr>])
       (set_trim_blocks True env_new) (demo_world (\<lambda>_. None) demo_fs)
     = (Inl (TemplateAddFailed (SyntaxError ''readme'')),
        (demo_world (\<lambda>_. None) demo_fs)\<lparr>console := console (demo_world (\<lambda>_. None) demo_fs) @ reading_lines
          ([\<lparr>template_name = ''action'', content = ''A'', rendered_path = ''../action.yml''\<rparr>]
           @ [\<lparr>template_name = ''readme'', content = [], rendered_path = ''../README.md''\<rparr>])\<rparr>)"
    apply (rule read_templates_first_failure [where cc = "\<lambda>t. (True, content t)"])
    by (auto simp: demo_libs_def set_trim_blocks_def)
  from r show ?thesis
    by (simp add: reading_lines_def demo_world_def del: read_templates.simps)
qed

theorem write_one_writes_file_witness:
  "\<exists>fs'. write_one demo_libs \<lparr>trim_blocks = True, templates = [''test-action'' \<mapsto> (True, ''on: push'')]\<rparr>
       demo_config demo_test_action (demo_world (\<lambda>_. None) demo_fs)
     = (Inr (), (demo_world (\<lambda>_. None) demo_fs)\<lparr>fs := fs',
          console := console (demo_world (\<lambda>_. None) demo_fs) @ writing_lines demo_test_action\<rparr>)
     \<and> read_file fs' (cwd (demo_world (\<lambda>_. None) demo_fs)) (components (rendered_path demo_test_action)) = Inr ''on: push''"
proof (rule write_one_writes_file [where pre = "[RootDir]" and ns = "[''home'', ''dev'', ''repo'', ''.github'', ''workflows'']"
      and f = "''test_action.yml''" and d = "[]"])
  show "templates \<lparr>trim_blocks = True, templates = [''test-action'' \<mapsto> (True, ''on: push'')]\<rparr> (template_name demo_test_action)
      = Some (True, ''on: push'')"
    by (simp add: demo_test_action_def)
  show "render demo_libs (True, ''on: push'') (serialize_config demo_config) = Inr ''on: push''"
    by (simp add: demo_libs_def)
  show "components (rendered_path demo_test_action) =
      [RootDir] @ map Normal [''home'', ''dev'', ''repo'', ''.github'', ''workflows''] @ [Normal ''test_action.yml'']"
    by code_simp
  show "walk (fs (demo_world (\<lambda>_. None) demo_fs)) (cwd (demo_world (\<lambda>_. None) demo_fs)) [RootDir] = Inr []"
    by (simp add: demo_world_def)
  show "no_file_on (fs (demo_world (\<lambda>_. None) demo_fs)) [] [''home'', ''dev'', ''repo'', ''.github'', ''workflows'']"
    by code_simp
  show "map_of (fs (demo_world (\<lambda>_. None) demo_fs))
      ([] @ [''home'', ''dev'', ''repo'', ''.github'', ''workflows''] @ [''test_action.yml'']) \<noteq> Some Dir"
    by code_simp
qed

theorem write_one_idempotent_witness:
  "write_one demo_libs \<lparr>trim_blocks = True, templates = [''test-action'' \<mapsto> (True, ''on: push'')]\<rparr>
       demo_config demo_test_action
       (snd (write_one demo_libs \<lparr>trim_blocks = True, templates = [''test-action'' \<mapsto> (True, ''on: push'')]\<rparr>
          demo_config demo_test_action (demo_world (\<lambda>_. None) demo_fs)))
   = (Inr (), (snd (write_one demo_libs \<lparr>trim_blocks = True, templates = [''test-action'' \<mapsto> (True, ''on: push'')]\<rparr>
          demo_config demo_test_action (demo_world (\<lambda>_. None) demo_fs)))
        \<lparr>console := console (snd (write_one demo_libs \<lparr>trim_blocks = True, templates = [''test-action'' \<mapsto> (True, ''on: push'')]\<rparr>
          demo_config demo_test_action (demo_world (\<lambda>_. None) demo_fs))) @ writing_lines demo_test_action\<rparr>)"
proof (rule write_one_idempotent)
  have "fst (write_one demo_libs \<lparr>trim_blocks = True, templates = [''test-action'' \<mapsto> (True, ''on: push'')]\<rparr>
          demo_config demo_test_action (demo_world (\<lambda>_. None) demo_fs)) = Inr ()"
    by code_simp
  then show "write_one demo_libs \<lparr>trim_blocks = True, templates = [''test-action'' \<mapsto> (True, ''on: push'')]\<rparr>
          demo_config demo_test_action (demo_world (\<lambda>_. None) demo_fs)
      = (Inr (), snd (write_one demo_libs \<lparr>trim_blocks = True, templates = [''test-action'' \<mapsto> (True, ''on: push'')]\<rparr>
          demo_config demo_test_action (demo_world (\<lambda>_. None) demo_fs)))"
    by (metis prod.collapse)
qed



theorem write_rendered_templates_idempotent_witness:
  "\<exists>w2. write_rendered_templates demo_libs [demo_test_action]
          \<lparr>trim_blocks = True, templates = [''test-action'' \<mapsto> (True, ''on: push'')]\<rparr> demo_config
          (snd (write_rendered_templates demo_libs [demo_test_action]
             \<lparr>trim_blocks = True, templates = [''test-action'' \<mapsto> (True, ''on: push'')]\<rparr> demo_config
             (demo_world (\<lambda>_. None) demo_fs))) = (Inr (), w2)
     \<and> map_of (fs w2) = map_of (fs (snd (write_rendered_templates demo_libs [demo_test_action]
             \<lparr>trim_blocks = True, templates = [''test-action'' \<mapsto> (True, ''on: push'')]\<rparr> demo_config
             (demo_world (\<lambda>_. None) demo_fs))))
     \<and> console w2 = console (snd (write_rendered_templates demo_libs [demo_test_action]
             \<lparr>trim_blocks = True, templates = [''test-action'' \<mapsto> (True, ''on: push'')]\<rparr> demo_config
             (demo_world (\<lambda>_. None) demo_fs))) @ writing_lines demo_test_action"
proof -
  have ok: "world_ok (demo_world (\<lambda>_. None) demo_fs)"
    by (simp add: world_ok_def demo_world_def demo_fs_def fs_wf_def cwd_ok_def)
  have "fst (write_rendered_templates demo_libs [demo_test_action]
          \<lparr>trim_blocks = True, templates = [''test-action'' \<mapsto> (True, ''on: push'')]\<rparr> demo_config
          (demo_world (\<lambda>_. None) demo_fs)) = Inr ()"
    by code_simp
  then have "write_rendered_templates demo_libs [demo_test_action]
          \<lparr>trim_blocks = True, templates = [''test-action'' \<mapsto> (True, ''on: push'')]\<rparr> demo_config
          (demo_world (\<lambda>_. None) demo_fs)
      = (Inr (), snd (write_rendered_templates demo_libs [demo_test_action]
          \<lparr>trim_blocks = True, templates = [''test-action'' \<mapsto> (True, ''on: push'')]\<rparr> demo_config
          (demo_world (\<lambda>_. None) demo_fs)))"
    by (metis prod.collapse)
  from write_rendered_templates_idempotent [OF this ok] show ?thesis by simp
qed

end
