(* ===== verification/Generate.thy ===== *)
theory Generate
  imports Repo Templates
begin

text \<open>
  The configuration loader and the entry point of \<^verbatim>\<open>generate.rs\<close>:
  \<^verbatim>\<open>Config::serialize\<close> (lines 72--76: read the file, parse and deserialize
  it, panicking on either failure), \<^verbatim>\<open>Config::new\<close> (64--70: load, then
  enrich with the repository name and owner) and \<^verbatim>\<open>main\<close> (6--25), with
  Rust's evaluation order: the configuration is assembled first, then the
  four templates are constructed left to right (each reading its source
  file), the repository root being asked for while the arguments of the
  fourth are evaluated; then all templates are registered and all rendered.
\<close>

definition config_serialize :: "'c libs \<Rightarrow> string \<Rightarrow> config io" where
  "config_serialize L path =
     io_bind (read_to_string path) (\<lambda>r. case r of
       Inl _ \<Rightarrow> io_panic (ConfigReadFailed path)
     | Inr text \<Rightarrow>
         (case yaml_parse L text of
            Inl e \<Rightarrow> io_panic (ConfigParseFailed (YamlError e))
          | Inr doc \<Rightarrow>
              (case deserialize_config doc of
                 Inl e \<Rightarrow> io_panic (ConfigParseFailed (SchemaError e))
               | Inr c \<Rightarrow> io_return c)))"

definition config_new :: "'c libs \<Rightarrow> string \<Rightarrow> config io" where
  "config_new L path = io_bind (config_serialize L path) extract_repo_name_and_owner"

definition main :: "'c libs \<Rightarrow> unit io" where
  "main L =
     io_bind (config_new L ''../config.yaml'') (\<lambda>config.
     (let env = set_trim_blocks True env_new in
     io_bind (template_new ''action'' ''../templates/action.yml.j2'' ''../action.yml'') (\<lambda>t1.
     io_bind (template_new ''readme'' ''../templates/README.md.j2'' ''../README.md'') (\<lambda>t2.
     io_bind (template_new ''cargo'' ''../templates/cargo.toml.j2'' ''Cargo.toml'') (\<lambda>t3.
     io_bind (join_root_path ''.github/workflows/test_action.yml'') (\<lambda>p4.
     io_bind (template_new ''test-action'' ''../templates/test-action.yml.j2'' p4) (\<lambda>t4.
     (let templates = [t1, t2, t3, t4] in
     io_bind (read_templates L templates env) (\<lambda>env'.
     write_rendered_templates L templates env' config)))))))))"

text \<open>
  A complete run on the sample checkout, with \<^verbatim>\<open>git\<close> reporting an SSH
  origin and the root \<^verbatim>\<open>/home/dev/repo\<close>.
\<close>

definition demo_start :: world where
  "demo_start = demo_world (demo_git ''origin\<newline>'' ''git@example.com:octocat/hello-world.git\<newline>''
     ''/home/dev/repo\<newline>'') demo_fs"

definition demo_run :: "(panic + unit) \<times> world" where
  "demo_run = main demo_libs demo_start"

subsection \<open>Properties of the run\<close>

lemma io_bind_Inr:
  assumes "io_bind m f w = (Inr b, w2)"
  obtains a w1 where "m w = (Inr a, w1)" and "f a w1 = (Inr b, w2)"
  using assms by (auto simp: io_bind_apply split: prod.splits sum.splits)

lemma config_serialize_Inr:
  "config_serialize L path w = (Inr c, w') \<longleftrightarrow>
     w' = w \<and> (\<exists>text doc. read_file (fs w) (cwd w) (components path) = Inr text
                 \<and> yaml_parse L text = Inr doc \<and> deserialize_config doc = Inr c)"
  by (auto simp: config_serialize_def io_bind_apply split: sum.splits)

lemma extract_Inr:
  assumes "extract_repo_name_and_owner c w = (Inr c', w')"
  shows "\<exists>n ow. c' = c\<lparr>repository_name := Some n, repository_owner := Some ow\<rparr>
           \<and> w' = w\<lparr>spawned := spawned w @ [[''remote''], [''remote'', ''get-url'', ''origin'']]\<rparr>"
  using assms
  by (auto simp: extract_repo_name_and_owner_def io_bind_apply Let_def
      split: option.splits if_splits)

lemma template_new_Inr:
  "template_new name src dest w = (Inr t, w') \<longleftrightarrow>
     w' = w \<and> (\<exists>text. read_file (fs w) (cwd w) (components src) = Inr text
               \<and> t = \<lparr>template_name = name, content = text, rendered_path = dest\<rparr>)"
  by (auto simp: template_new_def io_bind_apply split: sum.splits)

lemma join_root_path_Inr:
  "join_root_path rel w = (Inr p, w') \<Longrightarrow>
     \<exists>root. p = path_join root rel \<and> w' = w\<lparr>spawned := spawned w @ [[''rev-parse'', ''--show-toplevel'']]\<rparr>"
  by (auto simp: join_root_path_def get_repository_root_path_def io_bind_apply split: option.splits if_splits)

lemma read_templates_spawned: "read_templates L ts env w = (x, w') \<Longrightarrow> spawned w' = spawned w \<and> fs w' = fs w"
proof (induction ts arbitrary: env w)
  case (Cons t ts)
  then show ?case
    by (fastforce simp: io_bind_apply split: sum.splits)
qed simp

lemma write_rendered_templates_spawned:
  "write_rendered_templates L ts env cfg w = (x, w') \<Longrightarrow> spawned w' = spawned w"
proof (induction ts arbitrary: w)
  case (Cons t ts)
  then show ?case
    by (auto simp: io_bind_apply write_one_eq split: prod.splits sum.splits option.splits)
qed simp

lemma read_templates_flag:
  "trim_blocks env = b \<Longrightarrow> read_templates L ts env = read_templates (L\<lparr>compile := \<lambda>_. compile L b\<rparr>) ts env"
proof (induction ts arbitrary: env)
  case (Cons t ts)
  show ?case
  proof (cases "compile L b (template_name t) (content t)")
    case (Inl e)
    with Cons.prems show ?thesis by (simp add: add_template_def)
  next
    case (Inr c)
    let ?env' = "env\<lparr>templates := (templates env)(template_name t \<mapsto> c)\<rparr>"
    have "read_templates L ts ?env' = read_templates (L\<lparr>compile := \<lambda>_. compile L b\<rparr>) ts ?env'"
      using Cons.prems by (intro Cons.IH) simp
    with Inr Cons.prems show ?thesis by (simp add: add_template_def)
  qed
qed simp

lemma write_rendered_templates_compile:
  "write_rendered_templates (L\<lparr>compile := X\<rparr>) ts env cfg = write_rendered_templates L ts env cfg"
proof (induction ts)
  case (Cons t ts)
  then show ?case by (simp add: write_one_def split: sum.split)
qed simp

lemma config_new_compile: "config_new (L\<lparr>compile := X\<rparr>) p = config_new L p"
  by (simp add: config_new_def config_serialize_def cong: sum.case_cong)

lemma read_templates_flag_sym:
  "trim_blocks env = b \<Longrightarrow> read_templates (L\<lparr>compile := \<lambda>_. compile L b\<rparr>) ts env = read_templates L ts env"
  by (rule read_templates_flag [symmetric])

lemma trim_blocks_set [simp]: "trim_blocks (set_trim_blocks b env) = b"
  by (simp add: set_trim_blocks_def)

text \<open>
  C17: a run of \<^verbatim>\<open>main\<close> that finishes has spawned exactly three \<^verbatim>\<open>git\<close> commands, in this order: \<^verbatim>\<open>git remote\<close>, \<^verbatim>\<open>git remote get-url origin\<close> (both while the configuration is assembled) and \<^verbatim>\<open>git rev-parse --show-toplevel\<close> (while the fourth template is constructed).  The repository root is therefore resolved after the configuration, not before it.
\<close>

theorem main_git_commands:
  assumes "main L w = (Inr (), w')"
  shows "spawned w' = spawned w @ [[''remote''], [''remote'', ''get-url'', ''origin''], [''rev-parse'', ''--show-toplevel'']]"
  using assms
  by (auto simp: main_def Let_def config_new_def simp del: read_templates.simps write_rendered_templates.simps
      elim!: io_bind_Inr
      dest!: config_serialize_Inr [THEN iffD1] extract_Inr template_new_Inr [THEN iffD1]
        join_root_path_Inr read_templates_spawned write_rendered_templates_spawned)

theorem main_git_commands_witness:
  "spawned (snd demo_run) = [[''remote''], [''remote'', ''get-url'', ''origin''], [''rev-parse'', ''--show-toplevel'']]"
proof -
  have "fst demo_run = Inr ()" by code_simp
  then have "main demo_libs demo_start = (Inr (), snd demo_run)"
    unfolding demo_run_def by (metis prod.collapse)
  from main_git_commands [OF this] show ?thesis by (simp add: demo_start_def demo_world_def)
qed

text \<open>
  C18: every template is compiled in trim-blocks mode: \<^verbatim>\<open>main\<close> behaves the same when the compiler is told to ignore the flag it is given and always use trim-blocks.
\<close>

theorem main_compiles_with_trim_blocks:
  "main L = main (L\<lparr>compile := \<lambda>_. compile L True\<rparr>)"
  unfolding main_def Let_def config_new_compile write_rendered_templates_compile
  by (simp only: read_templates_flag_sym trim_blocks_set)

text \<open>
  C19: \<^verbatim>\<open>Config::new\<close>, when it returns, returns the configuration decoded from the file with both repository fields set, whatever the document said about them.
\<close>

theorem config_new_fields:
  assumes "config_new L path w = (Inr c, w')"
  shows "\<exists>text doc c0 n ow. read_file (fs w) (cwd w) (components path) = Inr text
           \<and> yaml_parse L text = Inr doc \<and> deserialize_config doc = Inr c0
           \<and> c = c0\<lparr>repository_name := Some n, repository_owner := Some ow\<rparr>"
  using assms
  by (fastforce simp: config_new_def elim!: io_bind_Inr dest!: config_serialize_Inr [THEN iffD1] extract_Inr)
theorem config_new_fields_witness:
  "\<exists>text doc c0 n ow. read_file demo_fs [''home'', ''dev'', ''repo'', ''rust-action''] (components ''../config.yaml'') = Inr text
     \<and> yaml_parse demo_libs text = Inr doc \<and> deserialize_config doc = Inr c0
     \<and> demo_config\<lparr>repository_name := Some ''hello-world'', repository_owner := Some ''octocat''\<rparr>
         = c0\<lparr>repository_name := Some n, repository_owner := Some ow\<rparr>"
proof -
  have "fst (config_new demo_libs ''../config.yaml'' demo_start)
          = Inr (demo_config\<lparr>repository_name := Some ''hello-world'', repository_owner := Some ''octocat''\<rparr>)"
    by code_simp
  then have "config_new demo_libs ''../config.yaml'' demo_start
      = (Inr (demo_config\<lparr>repository_name := Some ''hello-world'', repository_owner := Some ''octocat''\<rparr>),
         snd (config_new demo_libs ''../config.yaml'' demo_start))"
    by (metis prod.collapse)
  from config_new_fields [OF this] show ?thesis by (simp add: demo_start_def demo_world_def)
qed

end
