(* ===== verification/Spec2Isabelle.thy ===== *)
theory Spec2Isabelle
  imports Generate
begin

text \<open>
  \<^bold>\<open>A verification model of the GitHub-action generator
  \<^verbatim>\<open>src/rust-action/examples/generate.rs\<close>.\<close>

  The program is one straight-line Rust function \<^verbatim>\<open>main\<close> (lines 6--25).
  It loads \<^verbatim>\<open>../config.yaml\<close> into a \<^verbatim>\<open>Config\<close> (\<^verbatim>\<open>Config::new\<close>,
  \<^verbatim>\<open>Config::serialize\<close>, the derived \<^verbatim>\<open>Deserialize\<close>), asks \<^verbatim>\<open>git\<close> for
  the remotes and the origin URL and derives the repository name and owner
  from it (\<^verbatim>\<open>extract_repo_name_and_owner\<close>), constructs four template
  descriptors, each reading its source file (\<^verbatim>\<open>Template::new\<close>), asking
  \<^verbatim>\<open>git\<close> for the repository root while the fourth destination is computed
  (\<^verbatim>\<open>join_root_path\<close>, \<^verbatim>\<open>get_repository_root_path\<close>), registers the
  templates with a minijinja environment in trim-blocks mode
  (\<^verbatim>\<open>read_templates\<close>) and renders each against the configuration into its
  destination, creating parent directories (\<^verbatim>\<open>write_rendered_templates\<close>).
  Every failure is a panic.

  \<^bold>\<open>Theories and what they model.\<close>
  \<^item> \<open>Prelude\<close>: the error-result combinator \<open>ebind\<close> (Rust's
    \<^verbatim>\<open>?\<close>/\<^verbatim>\<open>expect\<close>), \<open>iter_next\<close> (an iterator's \<^verbatim>\<open>next\<close>), association
    lists as finite maps; the collections \<open>result_simps\<close> and \<open>wf_intros\<close>.
  \<^item> \<open>RustStr\<close>: the \<^verbatim>\<open>str\<close> methods the code calls (\<^verbatim>\<open>split\<close>,
    \<^verbatim>\<open>rsplit\<close>, \<^verbatim>\<open>strip_suffix\<close>, \<^verbatim>\<open>contains\<close>, \<^verbatim>\<open>trim\<close> with Unicode
    whitespace on UTF-8 bytes), each tied to a reference notion
    (\<open>str_contains_sublist\<close>, \<open>strip_suffix_Some_iff\<close>,
    \<open>join_with_str_split\<close>).  Standard-library models, not repository code.
  \<^item> \<open>Serde\<close>: the structs of lines 27--62 as records and their derived
    \<^verbatim>\<open>Serialize\<close>/\<^verbatim>\<open>Deserialize\<close> (\<open>serialize_config\<close>,
    \<open>deserialize_config\<close>, with serde's map visitor \<open>visit_map\<close>: duplicate
    known keys rejected, unknown keys ignored, missing fields reported in
    declaration order, absent \<^verbatim>\<open>Option\<close> fields \<open>None\<close>).  Documents are
    \<open>sval\<close>s; the YAML text grammar is not modelled.
  \<^item> \<open>Paths\<close>, \<open>Fs\<close>: \<^verbatim>\<open>Path::components\<close>/\<^verbatim>\<open>parent\<close>/\<^verbatim>\<open>join\<close> and a
    POSIX-like file system (an association list from absolute name lists to
    nodes) with \<^verbatim>\<open>read_to_string\<close>, \<^verbatim>\<open>write\<close>, \<^verbatim>\<open>mkdir\<close> and the
    standard library's \<^verbatim>\<open>create_dir_all\<close> recursion (a \<^theory_text>\<open>function\<close>
    terminating on the path length).  Lemmas: the shape invariant \<open>fs_wf\<close>
    is preserved, nothing is ever removed (\<open>no_removal\<close>), writes read back,
    writing twice is writing once, and \<open>create_dir_all_creates\<close>: on a path
    of existing directories followed by names that are not files,
    \<^verbatim>\<open>create_dir_all\<close> succeeds, creates exactly the missing directories
    and changes nothing deeper.
  \<^item> \<open>World\<close>: the panic datatype (one constructor per panic site), the
    world (file system, working directory, the \<^verbatim>\<open>git\<close> oracle, the log of
    spawned commands, standard output) and the monad
    \<open>'a io = world \<Rightarrow> (panic + 'a) \<times> world\<close>: a panic ends the run in the
    world as it was, so earlier writes stay.  The libraries the program only
    calls (YAML parser, template compiler, renderer) are the parameter record
    \<open>'c libs\<close>; \<open>demo_libs\<close>, \<open>demo_fs\<close>, \<open>demo_world\<close> are the fixtures
    the witnesses run on.
  \<^item> \<open>Repo\<close>: \<^verbatim>\<open>extract_repo_name_and_owner\<close> (lines 78--130),
    \<^verbatim>\<open>get_repository_root_path\<close> (201--220), \<^verbatim>\<open>join_root_path\<close>
    (187--199); claims C1--C7.
  \<^item> \<open>Templates\<close>: \<^verbatim>\<open>Template\<close>, \<^verbatim>\<open>Template::new\<close>,
    \<^verbatim>\<open>read_templates\<close>, \<^verbatim>\<open>write_rendered_templates\<close> (one iteration is
    \<open>write_one\<close>, its \<^verbatim>\<open>if let Some(p) = parent\<close> block is
    \<open>prepare_parent\<close>), and the minijinja environment as a record of the
    trim-blocks flag and the template store; claims C12--C16 and C20.
  \<^item> \<open>Generate\<close>: \<^verbatim>\<open>Config::serialize\<close>, \<^verbatim>\<open>Config::new\<close> and \<^verbatim>\<open>main\<close>,
    with Rust's left-to-right argument evaluation; claims C17--C19 and the
    complete sample run \<open>demo_run\<close> the witnesses evaluate.

  \<^bold>\<open>What is proved.\<close>
  The repository inspector's behaviour on every branch: SSH origins give
  name and owner (C1); no origin, no further command (C2); the origin test is
  a substring test (C3); the \<^verbatim>\<open>.git\<close> suffix is required (C4); an HTTPS
  origin gives the empty owner (C5); the owner panic of line 121 is
  unreachable (C6); the root join puts the path under the root (C7).  The
  configuration codec: round trip (C8), the first missing required field is
  reported (C9), unknown fields are ignored (C10), decoded values are the
  document's (C11).  Rendering: registration under every name with the
  current flag (C12), the first compile error stops registration (C13), a
  rendered template is written and reads back, directories created (C14),
  one iteration is idempotent (C15), after a finished loop every
  destination holds the text some template of the list rendered (C16), and
  the whole loop is idempotent: a second run changes no path of the file
  system and prints the same lines (C20).  The whole run: the three
  \<^verbatim>\<open>git\<close> commands in their order (C17), trim-blocks for every template
  (C18), the assembled configuration has both repository fields (C19).
  Shared lemmas: the loop keeps the file-system invariant and removes
  nothing, also when it panics (\<open>write_rendered_templates_keeps\<close>), and a
  successful run decomposes into new directories followed by last-writer
  file updates that a replay re-applies (\<open>write_rendered_templates_replay\<close>).

  \<^bold>\<open>Bounds and termination.\<close>  No fuel is used: every loop of the program
  is a traversal of a finite list (\<^theory_text>\<open>fun\<close> by structural recursion), the
  whitespace trimming and \<^verbatim>\<open>create_dir_all\<close> terminate on a length measure,
  and \<^verbatim>\<open>main\<close> is straight-line, so every operation is total and the
  witnesses evaluate it with \<open>simp\<close> or \<open>code_simp\<close>.  The \<^verbatim>\<open>git\<close>
  process is an oracle that answers or fails to spawn; a process that never
  ends is outside the model.

  \<^bold>\<open>Findings.\<close>  An HTTPS origin yields an empty owner (C5) where the
  spec expects the account; the \<^verbatim>\<open>.git\<close> suffix is required where the spec
  strips it if present (C4); the origin test accepts \<^verbatim>\<open>origin2\<close> (C3); the
  owner panic is dead code (C6); the repository root is resolved after the
  configuration is assembled, the reverse of the spec's order (C17); two
  \<^verbatim>\<open>expect\<close> messages read ``agit repository'' because of the backslash
  line continuations; the two \<^verbatim>\<open>Git command failed with status\<close> panics
  (lines 97 and 215) do not say which command failed.

  \<^bold>\<open>Not modelled.\<close>  The YAML grammar and minijinja's template language
  are library code the program only calls: they are the oracles of
  \<open>'c libs\<close>.  \<^verbatim>\<open>String::from_utf8_lossy\<close> is taken as given (process
  output is already the decoded string); file permissions, symbolic links,
  device errors and concurrent modification are outside the file-system
  model; \<^verbatim>\<open>println!\<close> cannot fail in the model.
\<close>

end
